theory Spec2Isabelle
  imports Main
begin

section \<open>Python values shared by the scripts\<close>

text \<open>
  The scripts are wrappers around child processes. What a child does is not
  computed by the scripts, so it is a parameter of the model (an environment);
  what the scripts print and which process operations they perform is their
  observable behaviour, collected in order as a list of events.

  Exceptions are values. \<open>SystemExit\<close> and \<open>KeyboardInterrupt\<close> derive from
  \<open>BaseException\<close> only, so \<open>except Exception\<close> does not catch them; every other
  constructor below is caught by \<open>except Exception\<close>. The string is \<open>str(e)\<close>.
\<close>

datatype exn =
    SystemExit int
  | KeyboardInterrupt
  | CalledProcessError int string
  | TimeoutExpired string
  | ValueError string
  | OSError string

fun is_Exception :: "exn \<Rightarrow> bool" where
  "is_Exception (SystemExit _) = False"
| "is_Exception KeyboardInterrupt = False"
| "is_Exception _ = True"

fun str_exn :: "exn \<Rightarrow> string" where
  "str_exn (SystemExit n) = []"
| "str_exn KeyboardInterrupt = []"
| "str_exn (CalledProcessError n s) = s"
| "str_exn (TimeoutExpired s) = s"
| "str_exn (ValueError s) = s"
| "str_exn (OSError s) = s"

datatype event =
    Print string
  | Echo string
  | Rmtree string
  | Run "string list"
  | Popen "string list"
  | Wait "nat option"
  | Terminate
  | Kill

text \<open>
  \<open>Print\<close> is a line the script itself formats, \<open>Echo\<close> is captured child output
  printed back, \<open>Run\<close> is a call of \<open>subprocess.run\<close>, and \<open>Popen\<close>, \<open>Wait\<close>,
  \<open>Terminate\<close>, \<open>Kill\<close> are the calls on a \<open>subprocess.Popen\<close> handle
  (\<open>Wait None\<close> is \<open>process.wait()\<close>, \<open>Wait (Some 5)\<close> is \<open>process.wait(timeout=5)\<close>).
\<close>

text \<open>\<open>sep.join(xs)\<close>.\<close>

fun join :: "string \<Rightarrow> string list \<Rightarrow> string" where
  "join s [] = []"
| "join s [x] = x"
| "join s (x # y # ys) = x @ s @ join s (y # ys)"

text \<open>\<open>xs.index(x)\<close>: the position of the first occurrence, \<open>ValueError\<close> when there is none.\<close>

fun index :: "string list \<Rightarrow> string \<Rightarrow> exn + nat" where
  "index [] x = Inl (ValueError (x @ '' is not in list''))"
| "index (y # ys) x =
     (if y = x then Inr 0
      else case index ys x of Inl e \<Rightarrow> Inl e | Inr n \<Rightarrow> Inr (Suc n))"

text \<open>\<open>xs[i:j]\<close> and \<open>xs[i:]\<close> for indices that are not negative.\<close>

definition slice :: "'a list \<Rightarrow> nat \<Rightarrow> nat \<Rightarrow> 'a list" where
  "slice xs i j = take (j - i) (drop i xs)"

definition slice_from :: "'a list \<Rightarrow> nat \<Rightarrow> 'a list" where
  "slice_from xs i = drop i xs"

section \<open>MultipleAIApp/r.py: the run script\<close>

subsection \<open>Splitting the arguments (lines 14 to 24)\<close>

text \<open>
  The argument is all of \<open>sys.argv\<close>, the script's own path first. The membership
  test and \<open>index\<close> both look at the whole list.
\<close>

definition split_args :: "string list \<Rightarrow> exn + (string list \<times> string list)" where
  "split_args argv =
     (if ''--'' \<in> set argv then
        (case index argv ''--'' of
           Inl e \<Rightarrow> Inl e
         | Inr dash_index \<Rightarrow> Inr (slice argv 1 dash_index, slice_from argv (dash_index + 1)))
      else Inr (slice_from argv 1, []))"

subsection \<open>The command handed to the child (lines 31 to 41)\<close>

definition r_prefix :: "string list" where
  "r_prefix = [''dotnet'', ''run'', ''--project'', ''MultipleAIApp/MultipleAIApp.csproj'',
               ''--framework'', ''net8.0-desktop'']"

definition build_cmd :: "string list \<Rightarrow> string list \<Rightarrow> string list" where
  "build_cmd script_args app_args =
     (let cmd = r_prefix;
          cmd = (if script_args \<noteq> [] then cmd @ script_args else cmd);
          cmd = (if app_args \<noteq> [] then (cmd @ [''--'']) @ app_args else cmd)
      in cmd)"

text \<open>The command as a function of \<open>sys.argv\<close>; the split cannot fail (see below).\<close>

definition cmd_of_argv :: "string list \<Rightarrow> exn + string list" where
  "cmd_of_argv argv =
     (case split_args argv of
        Inl e \<Rightarrow> Inl e
      | Inr (script_args, app_args) \<Rightarrow> Inr (build_cmd script_args app_args))"

section \<open>Running a script: output, exceptions, exit\<close>

text \<open>
  A computation yields a value or raises, and in both cases leaves the events it
  produced. \<open>bind\<close> is sequencing: an exception in the first part skips the rest.
\<close>

type_synonym 'a run = "(exn + 'a) \<times> event list"

definition ret :: "'a \<Rightarrow> 'a run" where
  "ret x = (Inr x, [])"

definition raise :: "exn \<Rightarrow> 'a run" where
  "raise e = (Inl e, [])"

definition emit :: "event \<Rightarrow> unit run" where
  "emit ev = (Inr (), [ev])"

definition print :: "string \<Rightarrow> unit run" where
  "print s = emit (Print s)"

definition sys_exit :: "int \<Rightarrow> 'a run" where
  "sys_exit n = raise (SystemExit n)"

definition bind :: "'a run \<Rightarrow> ('a \<Rightarrow> 'b run) \<Rightarrow> 'b run" where
  "bind m f =
     (case m of
        (Inl e, out) \<Rightarrow> (Inl e, out)
      | (Inr x, out) \<Rightarrow> (case f x of (r, out') \<Rightarrow> (r, out @ out')))"

definition seq :: "'a run \<Rightarrow> 'b run \<Rightarrow> 'b run" where
  "seq m n = bind m (\<lambda>_. n)"

definition guarded :: "bool \<Rightarrow> unit run \<Rightarrow> unit run" where
  "guarded b m = (if b then m else ret ())"

text \<open>
  \<open>try: m except ...: h\<close>. The handler function answers \<open>None\<close> for an exception
  that no \<open>except\<close> clause matches (it propagates) and otherwise the clause's
  body, which may raise in turn.
\<close>

definition try_except :: "'a run \<Rightarrow> (exn \<Rightarrow> 'a run option) \<Rightarrow> 'a run" where
  "try_except m h =
     (case m of
        (Inr x, out) \<Rightarrow> (Inr x, out)
      | (Inl e, out) \<Rightarrow>
          (case h e of
             None \<Rightarrow> (Inl e, out)
           | Some k \<Rightarrow> (case k of (r, out') \<Rightarrow> (r, out @ out'))))"

text \<open>
  How the interpreter ends once \<open>main()\<close> is over: status 0 when it returns,
  the argument of \<open>sys.exit\<close> when \<open>SystemExit\<close> reaches the top, a traceback for
  any other exception that nothing caught.
\<close>

datatype ending = Exit int | Traceback exn

fun ending_of :: "exn + unit \<Rightarrow> ending" where
  "ending_of (Inr _) = Exit 0"
| "ending_of (Inl (SystemExit n)) = Exit n"
| "ending_of (Inl e) = Traceback e"

definition script :: "unit run \<Rightarrow> ending \<times> event list" where
  "script m = (ending_of (fst m), snd m)"

text \<open>\<open>str(n)\<close> for an integer, as an f-string formats it.\<close>

fun str_nat :: "nat \<Rightarrow> string" where
  "str_nat n = (if n < 10 then [''0123456789'' ! n]
                else str_nat (n div 10) @ [''0123456789'' ! (n mod 10)])"

definition str_int :: "int \<Rightarrow> string" where
  "str_int i = (if i < 0 then ''-'' @ str_nat (nat (- i)) else str_nat (nat i))"

subsection \<open>Waiting on the child and the interrupt (lines 26 to 73)\<close>

text \<open>
  The environment of \<open>r.py\<close>: what \<open>os.chdir\<close> does (\<open>None\<close> is a normal return),
  what \<open>subprocess.Popen\<close> does (\<open>None\<close>: the child now exists), and what
  \<open>process.wait\<close> does for a given timeout: it returns the child's exit code or
  raises. An interrupt is \<open>KeyboardInterrupt\<close> raised by the call during which it
  arrives.
\<close>

record r_env =
  r_chdir :: "exn option"
  r_popen :: "string list \<Rightarrow> exn option"
  r_wait :: "nat option \<Rightarrow> exn + int"

definition may_raise :: "exn option \<Rightarrow> event list \<Rightarrow> unit run" where
  "may_raise r evs = (case r of None \<Rightarrow> (Inr (), evs) | Some e \<Rightarrow> (Inl e, evs))"

definition process_wait :: "r_env \<Rightarrow> nat option \<Rightarrow> int run" where
  "process_wait env timeout = (r_wait env timeout, [Wait timeout])"

text \<open>Line 60: \<open>except subprocess.TimeoutExpired\<close>.\<close>

fun on_timeout :: "exn \<Rightarrow> unit run option" where
  "on_timeout (TimeoutExpired _) =
     Some (seq (print ''Force killing application...'') (emit Kill))"
| "on_timeout _ = None"

text \<open>Lines 55 to 63: \<open>except KeyboardInterrupt\<close> around the wait.\<close>

fun on_interrupt :: "r_env \<Rightarrow> exn \<Rightarrow> unit run option" where
  "on_interrupt env KeyboardInterrupt =
     Some (seq (print (CHR 0x0A # ''Stopping application...''))
          (seq (emit Terminate)
          (seq (try_except (seq (process_wait env (Some 5)) (ret ())) on_timeout)
               (sys_exit 0))))"
| "on_interrupt env _ = None"

text \<open>Lines 49 to 63.\<close>

definition wait_for_child :: "r_env \<Rightarrow> unit run" where
  "wait_for_child env =
     try_except
       (bind (process_wait env None) (\<lambda>result.
          if result \<noteq> 0
          then seq (print (''Application exited with code '' @ str_int result)) (sys_exit result)
          else ret ()))
       (on_interrupt env)"

text \<open>Lines 65 to 73: the three \<open>except\<close> clauses of the outer \<open>try\<close>, in order.\<close>

fun r_handler :: "exn \<Rightarrow> unit run option" where
  "r_handler (CalledProcessError n s) =
     Some (seq (print (''Command failed with exit code '' @ str_int n)) (sys_exit n))"
| "r_handler KeyboardInterrupt =
     Some (seq (print (CHR 0x0A # ''Application interrupted by user'')) (sys_exit 1))"
| "r_handler e =
     (if is_Exception e then Some (seq (print (''Error: '' @ str_exn e)) (sys_exit 1))
      else None)"

definition r_main :: "r_env \<Rightarrow> string list \<Rightarrow> unit run" where
  "r_main env argv =
     bind (split_args argv, []) (\<lambda>(script_args, app_args).
       try_except
         (seq (may_raise (r_chdir env) [])
           (let cmd = build_cmd script_args app_args in
            seq (print (''Running: '' @ join '' '' cmd))
           (seq (print ''Application starting... (Press Ctrl+C to stop)'')
           (seq (may_raise (r_popen env cmd) [Popen cmd])
                (wait_for_child env)))))
         r_handler)"

section \<open>Child processes run to completion\<close>

text \<open>
  \<open>subprocess.run\<close> returns a \<open>CompletedProcess\<close> or raises (the program is not
  found, an interrupt arrives). \<open>path_exists\<close> is \<open>os.path.exists\<close>; \<open>glob\<close> and
  \<open>is_dir\<close> are \<open>Path(".").glob\<close> and \<open>Path.is_dir\<close>. The file system is read
  as it is when the script starts: what a child process or \<open>shutil.rmtree\<close> changes
  on disk is not tracked. The directories that the clean step removes are \<open>bin\<close>
  and \<open>obj\<close> directories, none of which is a path the scripts test afterwards.
\<close>

record completed =
  returncode :: int
  stdout :: string
  stderr :: string

record env =
  subprocess_run :: "string list \<Rightarrow> exn + completed"
  path_exists :: "string \<Rightarrow> bool"
  glob :: "string \<Rightarrow> string list"
  is_dir :: "string \<Rightarrow> bool"
  os_chdir :: "exn option"

section \<open>MultipleAIApp/b.py: the build script of the application\<close>

text \<open>
  \<open>repr\<close> of a list of strings that hold no quote, backslash or unprintable
  character, and the text of \<open>CalledProcessError\<close>.
\<close>

definition repr_list :: "string list \<Rightarrow> string" where
  "repr_list xs = ''['' @ join '', '' (map (\<lambda>x. [CHR 0x27] @ x @ [CHR 0x27]) xs) @ '']''"

definition called_process_error :: "string list \<Rightarrow> int \<Rightarrow> exn" where
  "called_process_error cmd n =
     CalledProcessError n
       (''Command '' @ [CHR 0x27] @ repr_list cmd @ [CHR 0x27]
          @ '' returned non-zero exit status '' @ str_int n @ ''.'')"

text \<open>\<open>subprocess.run(cmd, check=True)\<close>: a non-zero exit code is raised.\<close>

definition run_checked :: "env \<Rightarrow> string list \<Rightarrow> completed run" where
  "run_checked env cmd =
     (case subprocess_run env cmd of
        Inl e \<Rightarrow> (Inl e, [Run cmd])
      | Inr r \<Rightarrow>
          if returncode r \<noteq> 0 then (Inl (called_process_error cmd (returncode r)), [Run cmd])
          else (Inr r, [Run cmd]))"

record b_args =
  b_clean :: bool
  b_run :: bool

text \<open>Lines 36 to 44.\<close>

fun b_handler :: "exn \<Rightarrow> unit run option" where
  "b_handler (CalledProcessError n s) =
     Some (seq (print (''Command failed with exit code '' @ str_int n)) (sys_exit n))"
| "b_handler KeyboardInterrupt =
     Some (seq (print (CHR 0x0A # ''Build interrupted by user'')) (sys_exit 1))"
| "b_handler e =
     (if is_Exception e then Some (seq (print (''Error: '' @ str_exn e)) (sys_exit 1))
      else None)"

definition b_main :: "env \<Rightarrow> b_args \<Rightarrow> unit run" where
  "b_main env args =
     try_except
       (seq (may_raise (os_chdir env) [])
       (seq (guarded (b_clean args)
               (seq (print ''Cleaning solution...'')
                    (seq (run_checked env [''dotnet'', ''clean'', ''MultipleAIApp.sln'']) (ret ()))))
       (seq (print ''Building solution...'')
       (seq (run_checked env [''dotnet'', ''build'', ''MultipleAIApp.sln''])
       (seq (print ''Build completed successfully!'')
            (guarded (b_run args)
               (seq (print ''Running application...'')
                    (seq (run_checked env [''dotnet'', ''run'', ''--project'',
                            ''MultipleAIApp/MultipleAIApp.csproj'', ''--framework'', ''net8.0-desktop''])
                         (ret ())))))))))
       b_handler"

text \<open>What a single delegated command did, read off the environment.\<close>

definition fails_with :: "env \<Rightarrow> string list \<Rightarrow> int \<Rightarrow> bool" where
  "fails_with env cmd n =
     (case subprocess_run env cmd of Inl e \<Rightarrow> False | Inr r \<Rightarrow> returncode r = n \<and> n \<noteq> 0)"

definition succeeds :: "env \<Rightarrow> string list \<Rightarrow> bool" where
  "succeeds env cmd =
     (case subprocess_run env cmd of Inl e \<Rightarrow> False | Inr r \<Rightarrow> returncode r = 0)"

section \<open>build.py: the build script of the whole project\<close>

subsection \<open>\<open>run_command\<close> (lines 15 to 38)\<close>

text \<open>
  Every call in \<open>build.py\<close> passes \<open>check=False\<close> and a list, so
  \<open>subprocess.run\<close> never raises \<open>CalledProcessError\<close> and the \<open>except\<close> clause
  of \<open>run_command\<close> (which names that exception only) never runs. Whatever else
  \<open>subprocess.run\<close> raises leaves \<open>run_command\<close> as it is.
\<close>

definition run_command :: "env \<Rightarrow> string list \<Rightarrow> completed run" where
  "run_command env cmd =
     seq (print (''Running: '' @ join '' '' cmd))
         (case subprocess_run env cmd of
            Inl e \<Rightarrow> (Inl e, [Run cmd])
          | Inr result \<Rightarrow>
              seq (emit (Run cmd))
             (seq (guarded (stdout result \<noteq> []) (emit (Echo (stdout result))))
             (seq (guarded (stderr result \<noteq> [] \<and> returncode result = 0)
                     (emit (Echo (stderr result))))
                  (ret result))))"

subsection \<open>\<open>clean_project\<close> (lines 41 to 80)\<close>

definition clean_dirs :: "string list" where
  "clean_dirs = [''bin'', ''obj'', ''*/bin'', ''*/obj'', ''*/*/bin'', ''*/*/obj'',
     ''MultiLLM.Core/bin'', ''MultiLLM.Core/obj'',
     ''MultiLLM.Core.Tests/bin'', ''MultiLLM.Core.Tests/obj'',
     ''MultiLLM.Demo/bin'', ''MultiLLM.Demo/obj'',
     ''MultipleAIApp/MultipleAIApp/bin'', ''MultipleAIApp/MultipleAIApp/obj'']"

definition solutions :: "string list" where
  "solutions = [''MultiLLM.sln'', ''MultipleAIApp/MultipleAIApp.sln'']"

text \<open>The inner loop of lines 64 to 67, over the paths one pattern matches.\<close>

fun remove_paths :: "env \<Rightarrow> string list \<Rightarrow> unit run" where
  "remove_paths env [] = ret ()"
| "remove_paths env (path # paths) =
     seq (guarded (is_dir env path)
            (seq (print (''Removing '' @ path)) (emit (Rmtree path))))
         (remove_paths env paths)"

fun remove_dirs :: "env \<Rightarrow> string list \<Rightarrow> unit run" where
  "remove_dirs env [] = ret ()"
| "remove_dirs env (pattern # patterns) =
     seq (remove_paths env (glob env pattern)) (remove_dirs env patterns)"

text \<open>The loop of lines 75 to 78; the result of \<open>dotnet clean\<close> is not looked at.\<close>

fun clean_solutions :: "env \<Rightarrow> string list \<Rightarrow> unit run" where
  "clean_solutions env [] = ret ()"
| "clean_solutions env (solution # rest) =
     seq (guarded (path_exists env solution)
            (seq (print (''Cleaning '' @ solution @ ''...''))
                 (seq (run_command env [''dotnet'', ''clean'', solution]) (ret ()))))
         (clean_solutions env rest)"

definition clean_project :: "env \<Rightarrow> unit run" where
  "clean_project env =
     seq (print ''Cleaning project...'')
    (seq (remove_dirs env clean_dirs)
    (seq (clean_solutions env solutions)
         (print ''Clean complete!'')))"

subsection \<open>\<open>build_project\<close> (lines 83 to 111)\<close>

fun build_solutions :: "env \<Rightarrow> string \<Rightarrow> string list \<Rightarrow> bool \<Rightarrow> bool run" where
  "build_solutions env configuration [] build_success = ret build_success"
| "build_solutions env configuration (solution # rest) build_success =
     (if path_exists env solution then
        seq (print (''Building '' @ solution @ ''...''))
            (bind (run_command env [''dotnet'', ''build'', solution,
                                    ''--configuration'', configuration, ''--no-restore''])
               (\<lambda>result.
                  if returncode result \<noteq> 0 then
                    seq (print (''Build failed for '' @ solution))
                        (build_solutions env configuration rest False)
                  else
                    seq (print (''Build successful for '' @ solution))
                        (build_solutions env configuration rest build_success)))
      else
        seq (print (''Solution '' @ solution @ '' not found, skipping...''))
            (build_solutions env configuration rest build_success))"

definition build_project :: "env \<Rightarrow> string \<Rightarrow> bool run" where
  "build_project env configuration =
     seq (print (''Building project in '' @ configuration @ '' configuration...''))
         (build_solutions env configuration solutions True)"

subsection \<open>\<open>run_tests\<close> (lines 114 to 141)\<close>

definition test_projects :: "string list" where
  "test_projects = [''MultiLLM.Core.Tests/MultiLLM.Core.Tests.csproj'']"

fun test_each :: "env \<Rightarrow> string list \<Rightarrow> bool \<Rightarrow> bool run" where
  "test_each env [] test_success = ret test_success"
| "test_each env (test_project # rest) test_success =
     (if path_exists env test_project then
        seq (print (''Running tests for '' @ test_project @ ''...''))
            (bind (run_command env [''dotnet'', ''test'', test_project,
                                    ''--no-build'', ''--verbosity'', ''normal''])
               (\<lambda>result.
                  if returncode result \<noteq> 0 then
                    seq (print (''Tests failed for '' @ test_project))
                        (test_each env rest False)
                  else
                    seq (print (''Tests passed for '' @ test_project))
                        (test_each env rest test_success)))
      else
        seq (print (''Test project '' @ test_project @ '' not found, skipping...''))
            (test_each env rest test_success))"

definition run_tests :: "env \<Rightarrow> bool run" where
  "run_tests env = seq (print ''Running tests...'') (test_each env test_projects True)"

subsection \<open>\<open>run_application\<close> (lines 144 to 179)\<close>

definition runnable_projects :: "string \<rightharpoonup> string" where
  "runnable_projects = [''demo'' \<mapsto> ''MultiLLM.Demo/MultiLLM.Demo.csproj'',
                        ''app'' \<mapsto> ''MultipleAIApp/MultipleAIApp/MultipleAIApp.csproj'']"

text \<open>Python's truth value of \<open>None\<close> or a string.\<close>

fun truthy :: "string option \<Rightarrow> bool" where
  "truthy None = False"
| "truthy (Some s) = (s \<noteq> [])"

text \<open>
  Lines 157 to 166: the project and its name when none was named on the command
  line, \<open>None\<close> when neither project file exists.
\<close>

definition default_project :: "env \<Rightarrow> (string \<times> string) option" where
  "default_project env =
     (if path_exists env ''MultiLLM.Demo/MultiLLM.Demo.csproj''
        then Some (''MultiLLM.Demo/MultiLLM.Demo.csproj'', ''demo'')
      else if path_exists env ''MultipleAIApp/MultipleAIApp/MultipleAIApp.csproj''
        then Some (''MultipleAIApp/MultipleAIApp/MultipleAIApp.csproj'', ''app'')
      else None)"

text \<open>Lines 154 to 166: the pair \<open>(project_to_run, project_name)\<close>.\<close>

definition choose_project :: "env \<Rightarrow> string option \<Rightarrow> (string \<times> string) option" where
  "choose_project env project_name =
     (case project_name of
        None \<Rightarrow> default_project env
      | Some name \<Rightarrow>
          if truthy project_name then
            (case runnable_projects name of
               Some project_to_run \<Rightarrow> Some (project_to_run, name)
             | None \<Rightarrow> default_project env)
          else default_project env)"

definition run_application :: "env \<Rightarrow> string option \<Rightarrow> bool run" where
  "run_application env project_name =
     seq (print ''Running application...'')
       (case choose_project env project_name of
          None \<Rightarrow> seq (print ''No runnable projects found!'') (ret False)
        | Some (project_to_run, name) \<Rightarrow>
            if path_exists env project_to_run then
              seq (print (''Running '' @ name @ '': '' @ project_to_run))
                  (bind (run_command env [''dotnet'', ''run'', ''--project'', project_to_run,
                                          ''--no-build''])
                     (\<lambda>result. ret (returncode result = 0)))
            else
              seq (print (''Project '' @ project_to_run @ '' not found!'')) (ret False))"

subsection \<open>\<open>main\<close> (lines 182 to 262)\<close>

text \<open>
  The namespace that \<open>argparse\<close> returns. \<open>run\<close> is \<open>None\<close> without \<open>--run\<close>,
  the empty string for a bare \<open>--run\<close> (\<open>const=""\<close>) and the project name otherwise.
\<close>

record args =
  clean :: bool
  configuration :: string
  test :: bool
  run :: "string option"
  skip_build :: bool

text \<open>Lines 207 to 211.\<close>

definition sdk_check :: "env \<Rightarrow> unit run" where
  "sdk_check env =
     bind (run_command env [''dotnet'', ''--version'']) (\<lambda>result.
       if returncode result \<noteq> 0 then
         seq (print ''ERROR: .NET SDK not found. Please install .NET 8 SDK.'') (sys_exit 1)
       else ret ())"

text \<open>Lines 217 and 221 to 227; the value is \<open>build_success\<close>.\<close>

definition build_stage :: "env \<Rightarrow> args \<Rightarrow> bool run" where
  "build_stage env a =
     (if \<not> skip_build a then
        bind (build_project env (configuration a)) (\<lambda>build_success.
          if \<not> build_success then
            seq (print ''Build failed!'')
                (if \<not> truthy (run a) then sys_exit 1 else ret build_success)
          else ret build_success)
      else ret True)"

text \<open>Lines 218 and 229 to 235; the value is \<open>test_success\<close>.\<close>

definition test_stage :: "env \<Rightarrow> args \<Rightarrow> bool \<Rightarrow> bool run" where
  "test_stage env a build_success =
     (if test a \<and> build_success then
        bind (run_tests env) (\<lambda>test_success.
          if \<not> test_success then
            seq (print ''Tests failed!'')
                (if \<not> truthy (run a) then sys_exit 1 else ret test_success)
          else ret test_success)
      else ret True)"

text \<open>Lines 219 and 237 to 242; the value is \<open>run_success\<close>.\<close>

definition run_stage :: "env \<Rightarrow> args \<Rightarrow> bool \<Rightarrow> bool run" where
  "run_stage env a build_success =
     (if run a \<noteq> None \<and> build_success then
        (let project_name = (if truthy (run a) then run a else None) in
         bind (run_application env project_name) (\<lambda>run_success.
           if \<not> run_success then
             seq (print ''Failed to run application!'') (ret run_success)
           else ret run_success))
      else ret True)"

text \<open>The check mark U+2713 and the cross U+2717, as the bytes of their UTF-8 form.\<close>

definition mark :: "bool \<Rightarrow> string" where
  "mark ok = (if ok then [CHR 0xE2, CHR 0x9C, CHR 0x93] else [CHR 0xE2, CHR 0x9C, CHR 0x97])"

definition summary_header :: string where
  "summary_header = CHR 0x0A # ''=== Build Summary ===''"

text \<open>Lines 244 to 255.\<close>

definition summary :: "args \<Rightarrow> bool \<Rightarrow> bool \<Rightarrow> bool \<Rightarrow> unit run" where
  "summary a build_success test_success run_success =
     seq (print summary_header)
    (seq (guarded (\<not> skip_build a) (print (''Build: '' @ mark build_success)))
    (seq (guarded (test a) (print (''Tests: '' @ mark test_success)))
    (seq (guarded (run a \<noteq> None) (print (''Run: '' @ mark run_success)))
         (guarded (\<not> build_success \<or> (test a \<and> \<not> test_success)) (sys_exit 1)))))"

text \<open>Lines 206 to 255: the body of the \<open>try\<close>.\<close>

definition main_body :: "env \<Rightarrow> args \<Rightarrow> unit run" where
  "main_body env a =
     seq (sdk_check env)
    (seq (guarded (clean a) (clean_project env))
    (bind (build_stage env a) (\<lambda>build_success.
     bind (test_stage env a build_success) (\<lambda>test_success.
     bind (run_stage env a build_success) (\<lambda>run_success.
       summary a build_success test_success run_success)))))"

text \<open>Lines 257 to 262.\<close>

fun main_handler :: "exn \<Rightarrow> unit run option" where
  "main_handler KeyboardInterrupt =
     Some (seq (print (CHR 0x0A # ''Build interrupted by user.'')) (sys_exit 1))"
| "main_handler e =
     (if is_Exception e then Some (seq (print (''Build failed: '' @ str_exn e)) (sys_exit 1))
      else None)"

text \<open>Lines 200 to 262, \<open>args\<close> being what line 198 parsed.\<close>

definition main :: "env \<Rightarrow> args \<Rightarrow> unit run" where
  "main env a =
     seq (print ''=== CsharpUAI Build Script ==='')
    (seq (may_raise (os_chdir env) [])
         (try_except (main_body env a) main_handler))"

subsection \<open>What an observer reads in the output of \<open>build.py\<close>\<close>

text \<open>
  A phase was entered when its first line was printed, and it failed when
  \<open>main\<close> printed the line it prints for a false result. The summary is what
  follows the summary header.
\<close>

definition printed :: "string \<Rightarrow> event list \<Rightarrow> bool" where
  "printed s out = (Print s \<in> set out)"

definition clean_started :: "event list \<Rightarrow> bool" where
  "clean_started out = printed ''Cleaning project...'' out"

definition build_started :: "args \<Rightarrow> event list \<Rightarrow> bool" where
  "build_started a out =
     printed (''Building project in '' @ configuration a @ '' configuration...'') out"

definition tests_started :: "event list \<Rightarrow> bool" where
  "tests_started out = printed ''Running tests...'' out"

definition run_started :: "event list \<Rightarrow> bool" where
  "run_started out = printed ''Running application...'' out"

definition build_failed :: "event list \<Rightarrow> bool" where
  "build_failed out = printed ''Build failed!'' out"

definition tests_failed :: "event list \<Rightarrow> bool" where
  "tests_failed out = printed ''Tests failed!'' out"

definition run_failed :: "event list \<Rightarrow> bool" where
  "run_failed out = printed ''Failed to run application!'' out"

definition summary_of :: "event list \<Rightarrow> event list" where
  "summary_of out = drop 1 (dropWhile (\<lambda>ev. ev \<noteq> Print summary_header) out)"

subsection \<open>Where the lines of the output come from\<close>

text \<open>
  \<open>lines_from ps out\<close>: every line the script printed in \<open>out\<close> starts with one
  of the strings \<open>ps\<close>. \<open>exit_code\<close> is the code a child ends with, \<open>None\<close> when
  \<open>subprocess.run\<close> raises instead of returning.
\<close>

definition starts :: "string \<Rightarrow> string \<Rightarrow> bool" where
  "starts p s = (take (length p) s = p)"

definition lines_from :: "string list \<Rightarrow> event list \<Rightarrow> bool" where
  "lines_from ps out = (\<forall>s. Print s \<in> set out \<longrightarrow> (\<exists>p\<in>set ps. starts p s))"

definition exit_code :: "env \<Rightarrow> string list \<Rightarrow> int option" where
  "exit_code env cmd =
     (case subprocess_run env cmd of Inl e \<Rightarrow> None | Inr r \<Rightarrow> Some (returncode r))"

text \<open>What the \<open>except\<close> clauses of \<open>main\<close> print for the result of the \<open>try\<close> body.\<close>

definition handler_output :: "exn + unit \<Rightarrow> event list" where
  "handler_output res =
     (case res of
        Inr u \<Rightarrow> []
      | Inl e \<Rightarrow> (case main_handler e of None \<Rightarrow> [] | Some k \<Rightarrow> snd k))"

subsection \<open>Example environments\<close>

text \<open>
  The second word of a command line (\<open>build\<close>, \<open>test\<close>, \<open>run\<close>, \<open>clean\<close>,
  \<open>--version\<close>), and three kinds of environment used as concrete inputs below:
  one where every command succeeds silently and every path exists, one where the
  commands of one kind end with a given code, and one where the commands of one
  kind cannot be spawned.
\<close>

definition subcommand :: "string list \<Rightarrow> string" where
  "subcommand cmd = (case cmd of tool # sub # rest \<Rightarrow> sub | _ \<Rightarrow> [])"

definition all_fine :: env where
  "all_fine = \<lparr>subprocess_run = (\<lambda>cmd. Inr \<lparr>returncode = 0, stdout = [], stderr = []\<rparr>),
               path_exists = (\<lambda>p. True), glob = (\<lambda>p. []), is_dir = (\<lambda>p. True),
               os_chdir = None\<rparr>"

definition failing :: "string \<Rightarrow> int \<Rightarrow> env" where
  "failing sub n =
     all_fine\<lparr>subprocess_run :=
       (\<lambda>cmd. Inr \<lparr>returncode = (if subcommand cmd = sub then n else 0),
                    stdout = [], stderr = []\<rparr>)\<rparr>"

definition unspawnable :: "string \<Rightarrow> string \<Rightarrow> env" where
  "unspawnable sub msg =
     all_fine\<lparr>subprocess_run :=
       (\<lambda>cmd. if subcommand cmd = sub then Inl (OSError msg)
              else Inr \<lparr>returncode = 0, stdout = [], stderr = []\<rparr>)\<rparr>"

text \<open>
  The commands of the phases that the arguments switch off: the build commands
  under \<open>--skip-build\<close>, the test commands without \<open>--test\<close>, the run commands
  without \<open>--run\<close>.
\<close>

definition skipped_command :: "args \<Rightarrow> string list \<Rightarrow> bool" where
  "skipped_command a cmd =
     ((skip_build a \<and> subcommand cmd = ''build'')
    \<or> (\<not> test a \<and> subcommand cmd = ''test'')
    \<or> (run a = None \<and> subcommand cmd = ''run''))"

section \<open>Properties of the argument splitter\<close>

lemma index_first:
  "i < length ys \<Longrightarrow> ys ! i = x \<Longrightarrow> \<forall>j<i. ys ! j \<noteq> x \<Longrightarrow> index ys x = Inr i"
proof (induction ys arbitrary: i)
  case Nil
  then show ?case by simp
next
  case (Cons y ys)
  show ?case
  proof (cases i)
    case 0
    with Cons.prems show ?thesis by simp
  next
    case (Suc k)
    from Cons.prems Suc have hd_ne: "y \<noteq> x" by auto
    from Cons.prems Suc have "k < length ys" "ys ! k = x" by auto
    moreover from Cons.prems Suc have "\<forall>j<k. ys ! j \<noteq> x" by auto
    ultimately have "index ys x = Inr k" by (rule Cons.IH)
    with hd_ne Suc show ?thesis by simp
  qed
qed

lemma index_present: "x \<in> set ys \<Longrightarrow> \<exists>n. index ys x = Inr n \<and> n < length ys \<and> ys ! n = x \<and> x \<notin> set (take n ys)"
proof (induction ys)
  case Nil
  then show ?case by simp
next
  case (Cons y ys)
  show ?case
  proof (cases "y = x")
    case True
    then show ?thesis by simp
  next
    case False
    with Cons.prems have "x \<in> set ys" by simp
    then obtain n where "index ys x = Inr n" "n < length ys" "ys ! n = x" "x \<notin> set (take n ys)"
      using Cons.IH by blast
    with False show ?thesis by simp
  qed
qed

text \<open>
  C4. Let the tokens be the arguments after the script's own path, and let that
  path not be the separator itself. If the first \<open>--\<close> among the tokens is at
  position \<open>i\<close>, the script arguments are \<open>tokens[0:i]\<close> and the application
  arguments are \<open>tokens[i+1:]\<close>, whatever that tail contains (later separators
  stay in it). If no token is \<open>--\<close>, the script arguments are all the tokens and
  the application arguments are empty.
\<close>

theorem split_args_first_separator:
  assumes "prog \<noteq> ''--''"
  shows "(i < length tokens \<and> tokens ! i = ''--'' \<and> (\<forall>j<i. tokens ! j \<noteq> ''--'')
            \<longrightarrow> split_args (prog # tokens) = Inr (take i tokens, drop (Suc i) tokens))
       \<and> (''--'' \<notin> set tokens \<longrightarrow> split_args (prog # tokens) = Inr (tokens, []))"
proof (intro conjI impI)
  assume h: "i < length tokens \<and> tokens ! i = ''--'' \<and> (\<forall>j<i. tokens ! j \<noteq> ''--'')"
  then have mem: "''--'' \<in> set tokens" by (metis nth_mem)
  from h have "index tokens ''--'' = Inr i" by (simp add: index_first)
  with assms have "index (prog # tokens) ''--'' = Inr (Suc i)" by simp
  with mem show "split_args (prog # tokens) = Inr (take i tokens, drop (Suc i) tokens)"
    by (simp add: split_args_def slice_def slice_from_def)
next
  assume "''--'' \<notin> set tokens"
  with assms show "split_args (prog # tokens) = Inr (tokens, [])"
    by (simp add: split_args_def slice_from_def)
qed

theorem split_args_first_separator_witness:
  "split_args [''r.py'', ''--clean'', ''--'', ''--verbose'', ''--'', ''--port=8080'']
     = Inr ([''--clean''], [''--verbose'', ''--'', ''--port=8080''])
   \<and> split_args [''r.py'', ''--clean'', ''-v''] = Inr ([''--clean'', ''-v''], [])"
proof -
  have p: "''r.py'' \<noteq> ''--''" by simp
  have a: "(1::nat) < length [''--clean'', ''--'', ''--verbose'', ''--'', ''--port=8080'']
         \<and> [''--clean'', ''--'', ''--verbose'', ''--'', ''--port=8080''] ! 1 = ''--''
         \<and> (\<forall>j<1. [''--clean'', ''--'', ''--verbose'', ''--'', ''--port=8080''] ! j \<noteq> ''--'')"
    by simp
  have b: "''--'' \<notin> set [''--clean'', ''-v'']" by simp
  from split_args_first_separator [OF p, of 1 "[''--clean'', ''--'', ''--verbose'', ''--'', ''--port=8080'']"] a
  have "split_args [''r.py'', ''--clean'', ''--'', ''--verbose'', ''--'', ''--port=8080'']
     = Inr ([''--clean''], [''--verbose'', ''--'', ''--port=8080''])" by simp
  moreover from split_args_first_separator [OF p, of _ "[''--clean'', ''-v'']"] b
  have "split_args [''r.py'', ''--clean'', ''-v''] = Inr ([''--clean'', ''-v''], [])" by simp
  ultimately show ?thesis by simp
qed

lemma index_append_first: "x \<notin> set pre \<Longrightarrow> index (pre @ x # post) x = Inr (length pre)"
  by (induction pre) auto

lemma split_args_decomp:
  assumes "prog \<noteq> ''--''" and "''--'' \<notin> set pre"
  shows "split_args (prog # pre @ ''--'' # post) = Inr (pre, post)"
proof -
  from assms have "''--'' \<notin> set (prog # pre)" by simp
  then have "index ((prog # pre) @ ''--'' # post) ''--'' = Inr (length (prog # pre))"
    by (rule index_append_first)
  then show ?thesis
    by (simp add: split_args_def slice_def slice_from_def)
qed

lemma split_args_total:
  "\<exists>script_args app_args. split_args argv = Inr (script_args, app_args)
      \<and> ''--'' \<notin> set script_args"
proof (cases "''--'' \<in> set argv")
  case True
  then obtain n where n: "index argv ''--'' = Inr n" "''--'' \<notin> set (take n argv)"
    using index_present by blast
  have "set (drop 1 (take n argv)) \<subseteq> set (take n argv)" by (rule set_drop_subset)
  with n(2) have "''--'' \<notin> set (drop 1 (take n argv))" by blast
  then have "''--'' \<notin> set (slice argv 1 n)" by (simp add: slice_def drop_take)
  with True n(1) show ?thesis by (simp add: split_args_def)
next
  case False
  have "set (drop 1 argv) \<subseteq> set argv" by (rule set_drop_subset)
  with False have "''--'' \<notin> set (slice_from argv 1)" unfolding slice_from_def by blast
  with False show ?thesis by (simp add: split_args_def)
qed

lemma count_r_prefix: "count_list r_prefix ''--'' = 0"
  by (simp add: r_prefix_def)

text \<open>
  C5, as stated, fails: the application arguments are forwarded unchanged, so a
  second \<open>--\<close> in the input is a second \<open>--\<close> in the command.
\<close>

theorem separator_twice_counterexample:
  "cmd_of_argv [''r.py'', ''--'', ''a'', ''--'', ''b'']
     = Inr [''dotnet'', ''run'', ''--project'', ''MultipleAIApp/MultipleAIApp.csproj'',
            ''--framework'', ''net8.0-desktop'', ''--'', ''a'', ''--'', ''b'']
   \<and> count_list [''dotnet'', ''run'', ''--project'', ''MultipleAIApp/MultipleAIApp.csproj'',
            ''--framework'', ''net8.0-desktop'', ''--'', ''a'', ''--'', ''b''] ''--'' = 2"
  by (simp add: cmd_of_argv_def split_args_def build_cmd_def r_prefix_def slice_def slice_from_def)

text \<open>
  C5, amended. For every \<open>sys.argv\<close> the split succeeds, and the command is the
  fixed prefix, then the script arguments, then (only when the application
  arguments are not empty) one \<open>--\<close> followed by the application arguments
  unchanged. Neither the prefix nor the script arguments contain \<open>--\<close>. So the
  command contains no \<open>--\<close> when the application arguments are empty, and
  otherwise the one the script inserts plus those the application arguments
  already contain.
\<close>

theorem separator_inserted_once:
  "\<exists>script_args app_args.
      split_args argv = Inr (script_args, app_args)
    \<and> ''--'' \<notin> set (r_prefix @ script_args)
    \<and> cmd_of_argv argv
        = Inr (r_prefix @ script_args @ (if app_args = [] then [] else ''--'' # app_args))
    \<and> (\<forall>cmd. cmd_of_argv argv = Inr cmd \<longrightarrow>
          count_list cmd ''--'' = (if app_args = [] then 0 else 1 + count_list app_args ''--''))"
proof -
  obtain script_args app_args
    where s: "split_args argv = Inr (script_args, app_args)" and n: "''--'' \<notin> set script_args"
    using split_args_total by blast
  have p: "''--'' \<notin> set r_prefix" by (simp add: r_prefix_def)
  have c: "cmd_of_argv argv
        = Inr (r_prefix @ script_args @ (if app_args = [] then [] else ''--'' # app_args))"
    using s by (simp add: cmd_of_argv_def build_cmd_def)
  have k: "count_list (r_prefix @ script_args @ (if app_args = [] then [] else ''--'' # app_args)) ''--''
        = (if app_args = [] then 0 else 1 + count_list app_args ''--'')"
    using n by (simp add: count_r_prefix count_list_0_iff)
  from s p n c k show ?thesis by auto
qed

theorem separator_inserted_once_witness:
  "cmd_of_argv [''r.py'', ''-v'', ''--'', ''a'', ''--'']
     = Inr (r_prefix @ [''-v''] @ [''--'', ''a'', ''--''])
   \<and> count_list (r_prefix @ [''-v''] @ [''--'', ''a'', ''--'']) ''--'' = 2
   \<and> cmd_of_argv [''r.py'', ''-v'', ''--''] = Inr (r_prefix @ [''-v''])
   \<and> count_list (r_prefix @ [''-v'']) ''--'' = 0"
proof -
  have a: "split_args [''r.py'', ''-v'', ''--'', ''a'', ''--''] = Inr ([''-v''], [''a'', ''--''])"
    by (simp add: split_args_def slice_def slice_from_def)
  have b: "split_args [''r.py'', ''-v'', ''--''] = Inr ([''-v''], [])"
    by (simp add: split_args_def slice_def slice_from_def)
  from separator_inserted_once [of "[''r.py'', ''-v'', ''--'', ''a'', ''--'']"] a
  have 1: "cmd_of_argv [''r.py'', ''-v'', ''--'', ''a'', ''--'']
             = Inr (r_prefix @ [''-v''] @ [''--'', ''a'', ''--''])
         \<and> count_list (r_prefix @ [''-v''] @ [''--'', ''a'', ''--'']) ''--'' = 2"
    by auto
  from separator_inserted_once [of "[''r.py'', ''-v'', ''--'']"] b
  have 2: "cmd_of_argv [''r.py'', ''-v'', ''--''] = Inr (r_prefix @ [''-v''])
         \<and> count_list (r_prefix @ [''-v'']) ''--'' = 0"
    by auto
  from 1 2 show ?thesis by simp
qed

text \<open>
  C10. Let the tokens be the arguments after the script's own path, and let that
  path not be the separator itself. If the first \<open>--\<close> among the tokens has at
  least one token after it, the command is the fixed prefix followed by the
  tokens unchanged. If the first \<open>--\<close> is the last token, the command is the
  fixed prefix followed by the tokens without that last one.
\<close>

theorem cmd_round_trip:
  assumes "prog \<noteq> ''--''" and "''--'' \<notin> set pre"
  shows "(post \<noteq> [] \<longrightarrow>
            cmd_of_argv (prog # pre @ ''--'' # post)
              = Inr ([''dotnet'', ''run'', ''--project'', ''MultipleAIApp/MultipleAIApp.csproj'',
                      ''--framework'', ''net8.0-desktop''] @ (pre @ ''--'' # post)))
       \<and> cmd_of_argv (prog # pre @ [''--''])
              = Inr ([''dotnet'', ''run'', ''--project'', ''MultipleAIApp/MultipleAIApp.csproj'',
                      ''--framework'', ''net8.0-desktop''] @ pre)"
proof -
  have "split_args (prog # pre @ ''--'' # post) = Inr (pre, post)"
    using assms by (rule split_args_decomp)
  moreover have "split_args (prog # pre @ ''--'' # []) = Inr (pre, [])"
    using assms by (rule split_args_decomp)
  ultimately show ?thesis
    by (simp add: cmd_of_argv_def build_cmd_def r_prefix_def Let_def)
qed

theorem cmd_round_trip_witness:
  "cmd_of_argv [''r.py'', ''--clean'', ''--'', ''--verbose'', ''--port=8080'']
     = Inr [''dotnet'', ''run'', ''--project'', ''MultipleAIApp/MultipleAIApp.csproj'',
            ''--framework'', ''net8.0-desktop'', ''--clean'', ''--'', ''--verbose'', ''--port=8080'']
   \<and> cmd_of_argv [''r.py'', ''--clean'', ''--'']
     = Inr [''dotnet'', ''run'', ''--project'', ''MultipleAIApp/MultipleAIApp.csproj'',
            ''--framework'', ''net8.0-desktop'', ''--clean'']"
proof -
  have p: "''r.py'' \<noteq> ''--''" by simp
  have q: "''--'' \<notin> set [''--clean'']" by simp
  from cmd_round_trip [OF p q, of "[''--verbose'', ''--port=8080'']"]
  show ?thesis by simp
qed

section \<open>Sequencing, output and exceptions\<close>

lemma fst_ret [simp]: "fst (ret x) = Inr x" and snd_ret [simp]: "snd (ret x) = []"
  by (simp_all add: ret_def)

lemma fst_sys_exit [simp]: "fst (sys_exit n) = Inl (SystemExit n)"
  and snd_sys_exit [simp]: "snd (sys_exit n) = []"
  by (simp_all add: sys_exit_def raise_def)

lemma fst_emit [simp]: "fst (emit ev) = Inr ()" and snd_emit [simp]: "snd (emit ev) = [ev]"
  by (simp_all add: emit_def)

lemma fst_print [simp]: "fst (print s) = Inr ()" and snd_print [simp]: "snd (print s) = [Print s]"
  by (simp_all add: print_def)

lemma fst_bind: "fst (bind m f) = (case fst m of Inl e \<Rightarrow> Inl e | Inr x \<Rightarrow> fst (f x))"
  by (cases m) (auto simp: bind_def split: sum.splits prod.splits)

lemma snd_bind: "snd (bind m f) = (case fst m of Inl e \<Rightarrow> snd m | Inr x \<Rightarrow> snd m @ snd (f x))"
  by (cases m) (auto simp: bind_def split: sum.splits prod.splits)

lemma fst_seq: "fst (seq m n) = (case fst m of Inl e \<Rightarrow> Inl e | Inr x \<Rightarrow> fst n)"
  by (simp add: seq_def fst_bind)

lemma snd_seq: "snd (seq m n) = (case fst m of Inl e \<Rightarrow> snd m | Inr x \<Rightarrow> snd m @ snd n)"
  by (simp add: seq_def snd_bind)

lemma fst_guarded: "fst (guarded b m) = (if b then fst m else Inr ())"
  and snd_guarded: "snd (guarded b m) = (if b then snd m else [])"
  by (simp_all add: guarded_def)

lemma fst_may_raise: "fst (may_raise r evs) = (case r of None \<Rightarrow> Inr () | Some e \<Rightarrow> Inl e)"
  and snd_may_raise [simp]: "snd (may_raise r evs) = evs"
  by (simp_all add: may_raise_def split: option.splits)

lemma fst_try_except:
  "fst (try_except m h) =
     (case fst m of Inr x \<Rightarrow> Inr x
      | Inl e \<Rightarrow> (case h e of None \<Rightarrow> Inl e | Some k \<Rightarrow> fst k))"
  by (cases m) (auto simp: try_except_def split: sum.splits option.splits prod.splits)

lemma snd_try_except:
  "snd (try_except m h) =
     (case fst m of Inr x \<Rightarrow> snd m
      | Inl e \<Rightarrow> (case h e of None \<Rightarrow> snd m | Some k \<Rightarrow> snd m @ snd k))"
  by (cases m) (auto simp: try_except_def split: sum.splits option.splits prod.splits)

lemmas run_simps = fst_bind snd_bind fst_seq snd_seq fst_guarded snd_guarded

subsection \<open>Lines and their first words\<close>

lemma lines_from_Nil [simp]: "lines_from ps []"
  by (simp add: lines_from_def)

lemma lines_from_append [simp]:
  "lines_from ps (xs @ ys) = (lines_from ps xs \<and> lines_from ps ys)"
  by (auto simp: lines_from_def)

lemma lines_from_Print [simp]:
  "lines_from ps (Print s # out) = ((\<exists>p\<in>set ps. starts p s) \<and> lines_from ps out)"
  by (auto simp: lines_from_def)

lemma lines_from_other [simp]:
  "lines_from ps (Echo s # out) = lines_from ps out"
  "lines_from ps (Run c # out) = lines_from ps out"
  "lines_from ps (Rmtree s # out) = lines_from ps out"
  by (auto simp: lines_from_def)

lemma lines_from_mono: "lines_from ps out \<Longrightarrow> set ps \<subseteq> set qs \<Longrightarrow> lines_from qs out"
  by (fastforce simp: lines_from_def)

lemma lines_from_bind:
  "lines_from ps (snd m) \<Longrightarrow> (\<And>x. lines_from ps (snd (f x))) \<Longrightarrow> lines_from ps (snd (bind m f))"
  by (auto simp: snd_bind split: sum.splits)

lemma lines_from_seq:
  "lines_from ps (snd m) \<Longrightarrow> lines_from ps (snd n) \<Longrightarrow> lines_from ps (snd (seq m n))"
  by (auto simp: snd_seq split: sum.splits)

lemma lines_from_guarded:
  "(b \<Longrightarrow> lines_from ps (snd m)) \<Longrightarrow> lines_from ps (snd (guarded b m))"
  by (simp add: snd_guarded)

lemma starts_simps [simp]:
  "starts [] s = True"
  "starts (c # p) [] = False"
  "starts (c # p) (d # s) = (c = d \<and> starts p s)"
  by (auto simp: starts_def)

lemma not_printed: "lines_from ps out \<Longrightarrow> \<forall>p\<in>set ps. \<not> starts p s \<Longrightarrow> \<not> printed s out"
  by (auto simp: lines_from_def printed_def)

section \<open>Properties of \<open>r.py\<close> and \<open>b.py\<close> as processes\<close>

lemmas run_defs = ret_def raise_def emit_def print_def sys_exit_def bind_def seq_def guarded_def
  try_except_def may_raise_def script_def

text \<open>
  C6. Let the child exist (\<open>os.chdir\<close> and \<open>Popen\<close> returned) and let the interrupt
  arrive during \<open>process.wait()\<close>. The script then calls \<open>terminate\<close> and waits
  with a timeout of 5 seconds. If that wait returns, nothing more is done to the
  child; if it raises \<open>TimeoutExpired\<close>, the script calls \<open>kill\<close>. Both ways
  the script ends with status 0. If the interrupt arrives before the child
  exists (during \<open>os.chdir\<close> or during \<open>Popen\<close>), the script ends with status 1
  and calls neither \<open>terminate\<close> nor \<open>kill\<close>.
\<close>

theorem interrupt_handling:
  assumes "cmd_of_argv argv = Inr cmd"
  shows "(r_chdir env = None \<and> r_popen env cmd = None \<and> r_wait env None = Inl KeyboardInterrupt
            \<and> r_wait env (Some 5) = Inr n \<longrightarrow>
          script (r_main env argv)
            = (Exit 0,
               [Print (''Running: '' @ join '' '' cmd),
                Print ''Application starting... (Press Ctrl+C to stop)'',
                Popen cmd, Wait None,
                Print (CHR 0x0A # ''Stopping application...''),
                Terminate, Wait (Some 5)]))
       \<and> (r_chdir env = None \<and> r_popen env cmd = None \<and> r_wait env None = Inl KeyboardInterrupt
            \<and> r_wait env (Some 5) = Inl (TimeoutExpired s) \<longrightarrow>
          script (r_main env argv)
            = (Exit 0,
               [Print (''Running: '' @ join '' '' cmd),
                Print ''Application starting... (Press Ctrl+C to stop)'',
                Popen cmd, Wait None,
                Print (CHR 0x0A # ''Stopping application...''),
                Terminate, Wait (Some 5),
                Print ''Force killing application...'', Kill]))
       \<and> (r_chdir env = None \<and> r_popen env cmd = Some KeyboardInterrupt \<longrightarrow>
          script (r_main env argv)
            = (Exit 1,
               [Print (''Running: '' @ join '' '' cmd),
                Print ''Application starting... (Press Ctrl+C to stop)'',
                Popen cmd,
                Print (CHR 0x0A # ''Application interrupted by user'')]))
       \<and> (r_chdir env = Some KeyboardInterrupt \<longrightarrow>
          script (r_main env argv)
            = (Exit 1, [Print (CHR 0x0A # ''Application interrupted by user'')]))"
proof -
  from assms obtain script_args app_args
    where s: "split_args argv = Inr (script_args, app_args)"
      and c: "cmd = build_cmd script_args app_args"
    by (auto simp: cmd_of_argv_def split: sum.splits)
  show ?thesis
    unfolding r_main_def s c
    by (simp add: run_defs Let_def wait_for_child_def process_wait_def)
qed

lemma cmd_of_bare_argv: "cmd_of_argv [''r.py''] = Inr r_prefix"
  by (simp add: cmd_of_argv_def split_args_def build_cmd_def slice_from_def)

lemma join_r_prefix:
  "join '' '' r_prefix
     = ''dotnet run --project MultipleAIApp/MultipleAIApp.csproj --framework net8.0-desktop''"
  by (simp add: r_prefix_def)

theorem interrupt_handling_witness:
  "script (r_main \<lparr>r_chdir = None, r_popen = (\<lambda>c. None),
                   r_wait = (\<lambda>t. if t = None then Inl KeyboardInterrupt else Inr 0)\<rparr> [''r.py''])
     = (Exit 0,
        [Print ''Running: dotnet run --project MultipleAIApp/MultipleAIApp.csproj --framework net8.0-desktop'',
         Print ''Application starting... (Press Ctrl+C to stop)'',
         Popen r_prefix, Wait None, Print (CHR 0x0A # ''Stopping application...''),
         Terminate, Wait (Some 5)])
   \<and> script (r_main \<lparr>r_chdir = None, r_popen = (\<lambda>c. None),
                   r_wait = (\<lambda>t. if t = None then Inl KeyboardInterrupt
                                  else Inl (TimeoutExpired ''timed out after 5 seconds''))\<rparr> [''r.py''])
     = (Exit 0,
        [Print ''Running: dotnet run --project MultipleAIApp/MultipleAIApp.csproj --framework net8.0-desktop'',
         Print ''Application starting... (Press Ctrl+C to stop)'',
         Popen r_prefix, Wait None, Print (CHR 0x0A # ''Stopping application...''),
         Terminate, Wait (Some 5), Print ''Force killing application...'', Kill])
   \<and> script (r_main \<lparr>r_chdir = None, r_popen = (\<lambda>c. Some KeyboardInterrupt),
                   r_wait = (\<lambda>t. Inr 0)\<rparr> [''r.py''])
     = (Exit 1,
        [Print ''Running: dotnet run --project MultipleAIApp/MultipleAIApp.csproj --framework net8.0-desktop'',
         Print ''Application starting... (Press Ctrl+C to stop)'',
         Popen r_prefix, Print (CHR 0x0A # ''Application interrupted by user'')])
   \<and> script (r_main \<lparr>r_chdir = Some KeyboardInterrupt, r_popen = (\<lambda>c. None),
                   r_wait = (\<lambda>t. Inr 0)\<rparr> [''r.py''])
     = (Exit 1, [Print (CHR 0x0A # ''Application interrupted by user'')])"
proof -
  note c = cmd_of_bare_argv
  have 1: "script (r_main \<lparr>r_chdir = None, r_popen = (\<lambda>c. None),
                   r_wait = (\<lambda>t. if t = None then Inl KeyboardInterrupt else Inr 0)\<rparr> [''r.py''])
     = (Exit 0,
        [Print ''Running: dotnet run --project MultipleAIApp/MultipleAIApp.csproj --framework net8.0-desktop'',
         Print ''Application starting... (Press Ctrl+C to stop)'',
         Popen r_prefix, Wait None, Print (CHR 0x0A # ''Stopping application...''),
         Terminate, Wait (Some 5)])"
    using interrupt_handling [OF c, of "\<lparr>r_chdir = None, r_popen = (\<lambda>c. None),
                   r_wait = (\<lambda>t. if t = None then Inl KeyboardInterrupt else Inr 0)\<rparr>" 0]
    by (simp add: join_r_prefix)
  have 2: "script (r_main \<lparr>r_chdir = None, r_popen = (\<lambda>c. None),
                   r_wait = (\<lambda>t. if t = None then Inl KeyboardInterrupt
                                  else Inl (TimeoutExpired ''timed out after 5 seconds''))\<rparr> [''r.py''])
     = (Exit 0,
        [Print ''Running: dotnet run --project MultipleAIApp/MultipleAIApp.csproj --framework net8.0-desktop'',
         Print ''Application starting... (Press Ctrl+C to stop)'',
         Popen r_prefix, Wait None, Print (CHR 0x0A # ''Stopping application...''),
         Terminate, Wait (Some 5), Print ''Force killing application...'', Kill])"
    using interrupt_handling [OF c, of "\<lparr>r_chdir = None, r_popen = (\<lambda>c. None),
                   r_wait = (\<lambda>t. if t = None then Inl KeyboardInterrupt
                                  else Inl (TimeoutExpired ''timed out after 5 seconds''))\<rparr>"
                   _ "''timed out after 5 seconds''"]
    by (simp add: join_r_prefix)
  have 3: "script (r_main \<lparr>r_chdir = None, r_popen = (\<lambda>c. Some KeyboardInterrupt),
                   r_wait = (\<lambda>t. Inr 0)\<rparr> [''r.py''])
     = (Exit 1,
        [Print ''Running: dotnet run --project MultipleAIApp/MultipleAIApp.csproj --framework net8.0-desktop'',
         Print ''Application starting... (Press Ctrl+C to stop)'',
         Popen r_prefix, Print (CHR 0x0A # ''Application interrupted by user'')])"
    using interrupt_handling [OF c, of "\<lparr>r_chdir = None, r_popen = (\<lambda>c. Some KeyboardInterrupt),
                   r_wait = (\<lambda>t. Inr 0)\<rparr>"]
    by (simp add: join_r_prefix)
  have 4: "script (r_main \<lparr>r_chdir = Some KeyboardInterrupt, r_popen = (\<lambda>c. None),
                   r_wait = (\<lambda>t. Inr 0)\<rparr> [''r.py''])
     = (Exit 1, [Print (CHR 0x0A # ''Application interrupted by user'')])"
    using interrupt_handling [OF c, of "\<lparr>r_chdir = Some KeyboardInterrupt, r_popen = (\<lambda>c. None),
                   r_wait = (\<lambda>t. Inr 0)\<rparr>"]
    by simp
  from 1 2 3 4 show ?thesis by (intro conjI)
qed

lemma run_checked_fails:
  "fails_with env cmd n \<Longrightarrow> fst (run_checked env cmd) = Inl (called_process_error cmd n)"
  by (auto simp: fails_with_def run_checked_def split: sum.splits)

lemma run_checked_succeeds:
  "succeeds env cmd \<Longrightarrow> \<exists>r. fst (run_checked env cmd) = Inr r"
  by (auto simp: succeeds_def run_checked_def split: sum.splits)

text \<open>
  C9. In \<open>r.py\<close>, when the child exists and \<open>process.wait()\<close> returns a code
  \<open>n\<close> other than 0, the script ends with status \<open>n\<close>. In \<open>b.py\<close>, the first
  of the commands clean (when requested), build, run (when requested) that
  returns a code \<open>n\<close> other than 0 ends the script with status \<open>n\<close>.
\<close>

theorem child_exit_code_propagates:
  "(cmd_of_argv argv = Inr cmd \<and> r_chdir renv = None \<and> r_popen renv cmd = None
      \<and> r_wait renv None = Inr n \<and> n \<noteq> 0
      \<longrightarrow> fst (script (r_main renv argv)) = Exit n)
 \<and> (os_chdir env = None \<and> b_clean args
      \<and> fails_with env [''dotnet'', ''clean'', ''MultipleAIApp.sln''] n
      \<longrightarrow> fst (script (b_main env args)) = Exit n)
 \<and> (os_chdir env = None
      \<and> (b_clean args \<longrightarrow> succeeds env [''dotnet'', ''clean'', ''MultipleAIApp.sln''])
      \<and> fails_with env [''dotnet'', ''build'', ''MultipleAIApp.sln''] n
      \<longrightarrow> fst (script (b_main env args)) = Exit n)
 \<and> (os_chdir env = None
      \<and> (b_clean args \<longrightarrow> succeeds env [''dotnet'', ''clean'', ''MultipleAIApp.sln''])
      \<and> succeeds env [''dotnet'', ''build'', ''MultipleAIApp.sln'']
      \<and> b_run args
      \<and> fails_with env [''dotnet'', ''run'', ''--project'', ''MultipleAIApp/MultipleAIApp.csproj'',
                         ''--framework'', ''net8.0-desktop''] n
      \<longrightarrow> fst (script (b_main env args)) = Exit n)"
proof (intro conjI impI)
  assume h: "cmd_of_argv argv = Inr cmd \<and> r_chdir renv = None \<and> r_popen renv cmd = None
      \<and> r_wait renv None = Inr n \<and> n \<noteq> 0"
  then obtain script_args app_args
    where s: "split_args argv = Inr (script_args, app_args)"
      and c: "cmd = build_cmd script_args app_args"
    by (auto simp: cmd_of_argv_def split: sum.splits)
  from h show "fst (script (r_main renv argv)) = Exit n"
    unfolding r_main_def s c
    by (simp add: run_defs Let_def wait_for_child_def process_wait_def)
next
  assume h: "os_chdir env = None \<and> b_clean args
      \<and> fails_with env [''dotnet'', ''clean'', ''MultipleAIApp.sln''] n"
  then have "fst (run_checked env [''dotnet'', ''clean'', ''MultipleAIApp.sln''])
               = Inl (called_process_error [''dotnet'', ''clean'', ''MultipleAIApp.sln''] n)"
    by (simp add: run_checked_fails)
  with h show "fst (script (b_main env args)) = Exit n"
    by (simp add: b_main_def script_def fst_try_except run_simps fst_may_raise
                  called_process_error_def)
next
  assume h: "os_chdir env = None
      \<and> (b_clean args \<longrightarrow> succeeds env [''dotnet'', ''clean'', ''MultipleAIApp.sln''])
      \<and> fails_with env [''dotnet'', ''build'', ''MultipleAIApp.sln''] n"
  then have c: "b_clean args \<Longrightarrow>
                  \<exists>r. fst (run_checked env [''dotnet'', ''clean'', ''MultipleAIApp.sln'']) = Inr r"
    by (simp add: run_checked_succeeds)
  from h have "fst (run_checked env [''dotnet'', ''build'', ''MultipleAIApp.sln''])
               = Inl (called_process_error [''dotnet'', ''build'', ''MultipleAIApp.sln''] n)"
    by (simp add: run_checked_fails)
  with h c show "fst (script (b_main env args)) = Exit n"
    by (auto simp: b_main_def script_def fst_try_except run_simps fst_may_raise
                  called_process_error_def)
next
  assume h: "os_chdir env = None
      \<and> (b_clean args \<longrightarrow> succeeds env [''dotnet'', ''clean'', ''MultipleAIApp.sln''])
      \<and> succeeds env [''dotnet'', ''build'', ''MultipleAIApp.sln'']
      \<and> b_run args
      \<and> fails_with env [''dotnet'', ''run'', ''--project'', ''MultipleAIApp/MultipleAIApp.csproj'',
                         ''--framework'', ''net8.0-desktop''] n"
  then have c: "b_clean args \<Longrightarrow>
                  \<exists>r. fst (run_checked env [''dotnet'', ''clean'', ''MultipleAIApp.sln'']) = Inr r"
    by (simp add: run_checked_succeeds)
  from h have b: "\<exists>r. fst (run_checked env [''dotnet'', ''build'', ''MultipleAIApp.sln'']) = Inr r"
    by (simp add: run_checked_succeeds)
  from h have "fst (run_checked env [''dotnet'', ''run'', ''--project'',
                      ''MultipleAIApp/MultipleAIApp.csproj'', ''--framework'', ''net8.0-desktop''])
               = Inl (called_process_error [''dotnet'', ''run'', ''--project'',
                      ''MultipleAIApp/MultipleAIApp.csproj'', ''--framework'', ''net8.0-desktop''] n)"
    by (simp add: run_checked_fails)
  with h c b show "fst (script (b_main env args)) = Exit n"
    by (auto simp: b_main_def script_def fst_try_except run_simps fst_may_raise
                  called_process_error_def)
qed

theorem child_exit_code_propagates_witness:
  "fst (script (r_main \<lparr>r_chdir = None, r_popen = (\<lambda>c. None), r_wait = (\<lambda>t. Inr 3)\<rparr> [''r.py'']))
     = Exit 3
   \<and> fst (script (b_main
        \<lparr>subprocess_run = (\<lambda>c. Inr \<lparr>returncode = (if c ! 1 = ''clean'' then 4 else 0),
                                      stdout = [], stderr = []\<rparr>),
         path_exists = (\<lambda>p. True), glob = (\<lambda>p. []), is_dir = (\<lambda>p. True), os_chdir = None\<rparr>
        \<lparr>b_clean = True, b_run = True\<rparr>)) = Exit 4
   \<and> fst (script (b_main
        \<lparr>subprocess_run = (\<lambda>c. Inr \<lparr>returncode = (if c ! 1 = ''build'' then 5 else 0),
                                      stdout = [], stderr = []\<rparr>),
         path_exists = (\<lambda>p. True), glob = (\<lambda>p. []), is_dir = (\<lambda>p. True), os_chdir = None\<rparr>
        \<lparr>b_clean = True, b_run = True\<rparr>)) = Exit 5
   \<and> fst (script (b_main
        \<lparr>subprocess_run = (\<lambda>c. Inr \<lparr>returncode = (if c ! 1 = ''run'' then 6 else 0),
                                      stdout = [], stderr = []\<rparr>),
         path_exists = (\<lambda>p. True), glob = (\<lambda>p. []), is_dir = (\<lambda>p. True), os_chdir = None\<rparr>
        \<lparr>b_clean = True, b_run = True\<rparr>)) = Exit 6"
proof -
  have 1: "fst (script (r_main \<lparr>r_chdir = None, r_popen = (\<lambda>c. None), r_wait = (\<lambda>t. Inr 3)\<rparr>
                  [''r.py''])) = Exit 3"
    using child_exit_code_propagates
      [where argv = "[''r.py'']" and cmd = r_prefix and n = 3
         and renv = "\<lparr>r_chdir = None, r_popen = (\<lambda>c. None), r_wait = (\<lambda>t. Inr 3)\<rparr>"]
    by (simp add: cmd_of_bare_argv)
  have 2: "fst (script (b_main
        \<lparr>subprocess_run = (\<lambda>c. Inr \<lparr>returncode = (if c ! 1 = ''clean'' then 4 else 0),
                                      stdout = [], stderr = []\<rparr>),
         path_exists = (\<lambda>p. True), glob = (\<lambda>p. []), is_dir = (\<lambda>p. True), os_chdir = None\<rparr>
        \<lparr>b_clean = True, b_run = True\<rparr>)) = Exit 4"
    using child_exit_code_propagates
      [where n = 4 and args = "\<lparr>b_clean = True, b_run = True\<rparr>"
         and env = "\<lparr>subprocess_run = (\<lambda>c. Inr \<lparr>returncode = (if c ! 1 = ''clean'' then 4 else 0),
                                      stdout = [], stderr = []\<rparr>),
         path_exists = (\<lambda>p. True), glob = (\<lambda>p. []), is_dir = (\<lambda>p. True), os_chdir = None\<rparr>"]
    by (simp add: fails_with_def succeeds_def)
  have 3: "fst (script (b_main
        \<lparr>subprocess_run = (\<lambda>c. Inr \<lparr>returncode = (if c ! 1 = ''build'' then 5 else 0),
                                      stdout = [], stderr = []\<rparr>),
         path_exists = (\<lambda>p. True), glob = (\<lambda>p. []), is_dir = (\<lambda>p. True), os_chdir = None\<rparr>
        \<lparr>b_clean = True, b_run = True\<rparr>)) = Exit 5"
    using child_exit_code_propagates
      [where n = 5 and args = "\<lparr>b_clean = True, b_run = True\<rparr>"
         and env = "\<lparr>subprocess_run = (\<lambda>c. Inr \<lparr>returncode = (if c ! 1 = ''build'' then 5 else 0),
                                      stdout = [], stderr = []\<rparr>),
         path_exists = (\<lambda>p. True), glob = (\<lambda>p. []), is_dir = (\<lambda>p. True), os_chdir = None\<rparr>"]
    by (simp add: fails_with_def succeeds_def)
  have 4: "fst (script (b_main
        \<lparr>subprocess_run = (\<lambda>c. Inr \<lparr>returncode = (if c ! 1 = ''run'' then 6 else 0),
                                      stdout = [], stderr = []\<rparr>),
         path_exists = (\<lambda>p. True), glob = (\<lambda>p. []), is_dir = (\<lambda>p. True), os_chdir = None\<rparr>
        \<lparr>b_clean = True, b_run = True\<rparr>)) = Exit 6"
    using child_exit_code_propagates
      [where n = 6 and args = "\<lparr>b_clean = True, b_run = True\<rparr>"
         and env = "\<lparr>subprocess_run = (\<lambda>c. Inr \<lparr>returncode = (if c ! 1 = ''run'' then 6 else 0),
                                      stdout = [], stderr = []\<rparr>),
         path_exists = (\<lambda>p. True), glob = (\<lambda>p. []), is_dir = (\<lambda>p. True), os_chdir = None\<rparr>"]
    by (simp add: fails_with_def succeeds_def)
  from 1 2 3 4 show ?thesis by (intro conjI)
qed

section \<open>Properties of \<open>build.py\<close>\<close>

subsection \<open>The functions of \<open>build.py\<close>, one by one\<close>

lemma fst_run_command [simp]: "fst (run_command env cmd) = subprocess_run env cmd"
  by (simp add: run_command_def run_simps split: sum.splits)

lemma run_command_lines: "lines_from [''Running: ''] (snd (run_command env cmd))"
  by (simp add: run_command_def run_simps split: sum.splits)

lemma run_command_lines': "ListMem ''Running: '' ps \<Longrightarrow> lines_from ps (snd (run_command env cmd))"
  by (rule lines_from_mono [OF run_command_lines]) (simp add: ListMem_iff)

lemma exit_code_Some: "exit_code env cmd \<noteq> None \<Longrightarrow> \<exists>r. subprocess_run env cmd = Inr r"
  by (cases "subprocess_run env cmd") (simp_all add: exit_code_def)

lemma exit_code_Inr [simp]: "subprocess_run env cmd = Inr r \<Longrightarrow> exit_code env cmd = Some (returncode r)"
  by (simp add: exit_code_def)

lemma remove_paths_result [simp]: "fst (remove_paths env paths) = Inr ()"
  by (induction paths) (simp_all add: run_simps)

lemma remove_paths_lines: "lines_from [''Removing ''] (snd (remove_paths env paths))"
  by (induction paths) (simp_all add: run_simps)

lemma remove_dirs_result [simp]: "fst (remove_dirs env patterns) = Inr ()"
  by (induction patterns) (simp_all add: run_simps)

lemma remove_dirs_lines: "lines_from [''Removing ''] (snd (remove_dirs env patterns))"
  by (induction patterns) (simp_all add: run_simps remove_paths_lines)

lemma clean_solutions_lines:
  "lines_from [''Cleaning '', ''Running: ''] (snd (clean_solutions env sols))"
proof (induction sols)
  case Nil
  show ?case by simp
next
  case (Cons s sols)
  have "lines_from [''Cleaning '', ''Running: ''] (snd (run_command env [''dotnet'', ''clean'', s]))"
    by (rule run_command_lines') (simp add: ListMem_iff)
  with Cons show ?case
    by (auto simp: run_simps split: sum.splits)
qed

lemma clean_solutions_result:
  assumes "\<And>cmd. exit_code env cmd \<noteq> None"
  shows "fst (clean_solutions env sols) = Inr ()"
proof (induction sols)
  case Nil
  show ?case by simp
next
  case (Cons s sols)
  obtain r where "subprocess_run env [''dotnet'', ''clean'', s] = Inr r"
    using assms exit_code_Some by blast
  with Cons show ?case by (simp add: run_simps)
qed

lemma clean_project_lines:
  "lines_from [''Cleaning '', ''Removing '', ''Running: '', ''Clean complete!'']
     (snd (clean_project env))"
proof -
  let ?ps = "[''Cleaning '', ''Removing '', ''Running: '', ''Clean complete!'']"
  have 1: "lines_from ?ps (snd (remove_dirs env clean_dirs))"
    by (rule lines_from_mono [OF remove_dirs_lines]) simp
  have 2: "lines_from ?ps (snd (clean_solutions env solutions))"
    by (rule lines_from_mono [OF clean_solutions_lines]) simp
  have 3: "lines_from ?ps (snd (print ''Cleaning project...''))" by simp
  have 4: "lines_from ?ps (snd (print ''Clean complete!''))" by simp
  show ?thesis
    unfolding clean_project_def
    by (intro lines_from_seq 1 2 3 4)
qed

lemma clean_project_result:
  assumes "\<And>cmd. exit_code env cmd \<noteq> None"
  shows "fst (clean_project env) = Inr ()"
  by (simp add: clean_project_def run_simps clean_solutions_result [OF assms])

text \<open>The command lines of the build and the test loop.\<close>

lemma build_solutions_lines:
  "lines_from [''Building '', ''Running: '', ''Build failed for '', ''Build successful for '',
               ''Solution ''] (snd (build_solutions env c sols b))"
proof (induction sols arbitrary: b)
  case Nil
  show ?case by simp
next
  case (Cons s sols)
  let ?ps = "[''Building '', ''Running: '', ''Build failed for '', ''Build successful for '',
              ''Solution '']"
  have "lines_from ?ps (snd (run_command env
          [''dotnet'', ''build'', s, ''--configuration'', c, ''--no-restore'']))"
    by (rule run_command_lines') (simp add: ListMem_iff)
  with Cons show ?case
    by (auto simp: run_simps split: sum.splits)
qed

lemma build_solutions_result:
  assumes "\<And>cmd. exit_code env cmd \<noteq> None"
  shows "fst (build_solutions env c sols b)
           = Inr (b \<and> (\<forall>s\<in>set sols. path_exists env s \<longrightarrow>
                        exit_code env [''dotnet'', ''build'', s, ''--configuration'', c,
                                       ''--no-restore''] = Some 0))"
proof (induction sols arbitrary: b)
  case Nil
  show ?case by simp
next
  case (Cons s sols)
  obtain r where "subprocess_run env
      [''dotnet'', ''build'', s, ''--configuration'', c, ''--no-restore''] = Inr r"
    using assms exit_code_Some by blast
  with Cons show ?case by (simp add: run_simps)
qed

lemma build_project_lines:
  "lines_from [''Building '', ''Running: '', ''Build failed for '', ''Build successful for '',
               ''Solution ''] (snd (build_project env c))"
  unfolding build_project_def
  by (rule lines_from_seq) (simp_all add: build_solutions_lines)

lemma test_each_lines:
  "lines_from [''Running tests for '', ''Running: '', ''Tests failed for '', ''Tests passed for '',
               ''Test project ''] (snd (test_each env ps b))"
proof (induction ps arbitrary: b)
  case Nil
  show ?case by simp
next
  case (Cons p ps)
  let ?ps = "[''Running tests for '', ''Running: '', ''Tests failed for '', ''Tests passed for '',
              ''Test project '']"
  have "lines_from ?ps (snd (run_command env
          [''dotnet'', ''test'', p, ''--no-build'', ''--verbosity'', ''normal'']))"
    by (rule run_command_lines') (simp add: ListMem_iff)
  with Cons show ?case
    by (auto simp: run_simps split: sum.splits)
qed

lemma test_each_result:
  assumes "\<And>cmd. exit_code env cmd \<noteq> None"
  shows "fst (test_each env ps b)
           = Inr (b \<and> (\<forall>p\<in>set ps. path_exists env p \<longrightarrow>
                        exit_code env [''dotnet'', ''test'', p, ''--no-build'', ''--verbosity'',
                                       ''normal''] = Some 0))"
proof (induction ps arbitrary: b)
  case Nil
  show ?case by simp
next
  case (Cons p ps)
  obtain r where "subprocess_run env
      [''dotnet'', ''test'', p, ''--no-build'', ''--verbosity'', ''normal''] = Inr r"
    using assms exit_code_Some by blast
  with Cons show ?case by (simp add: run_simps)
qed

lemma run_tests_lines:
  "lines_from [''Running tests...'', ''Running tests for '', ''Running: '', ''Tests failed for '',
               ''Tests passed for '', ''Test project ''] (snd (run_tests env))"
  unfolding run_tests_def
  by (rule lines_from_seq, simp, rule lines_from_mono [OF test_each_lines]) simp

lemma choose_project_name:
  "choose_project env pn = Some (p, n) \<Longrightarrow> n = ''demo'' \<or> n = ''app''"
  by (auto simp: choose_project_def default_project_def runnable_projects_def
           split: option.splits if_splits)

lemma run_application_lines:
  "lines_from [''Running application...'', ''No runnable projects found!'', ''Running demo: '',
               ''Running app: '', ''Running: '', ''Project ''] (snd (run_application env pn))"
proof -
  let ?ps = "[''Running application...'', ''No runnable projects found!'', ''Running demo: '',
               ''Running app: '', ''Running: '', ''Project '']"
  have rc: "lines_from ?ps (snd (run_command env c))" for c
    by (rule run_command_lines') (simp add: ListMem_iff)
  show ?thesis
  proof (cases "choose_project env pn")
    case None
    then show ?thesis by (simp add: run_application_def run_simps)
  next
    case (Some pr)
    obtain p n where pr: "pr = (p, n)" by (cases pr)
    with Some have "n = ''demo'' \<or> n = ''app''" using choose_project_name by blast
    with Some pr rc show ?thesis
      by (auto simp: run_application_def run_simps split: sum.splits)
  qed
qed

lemma run_application_result:
  assumes "\<And>cmd. exit_code env cmd \<noteq> None"
  shows "fst (run_application env pn)
           = Inr (case choose_project env pn of
                    None \<Rightarrow> False
                  | Some (p, n) \<Rightarrow> path_exists env p
                      \<and> exit_code env [''dotnet'', ''run'', ''--project'', p, ''--no-build'']
                          = Some 0)"
proof (cases "choose_project env pn")
  case None
  then show ?thesis by (simp add: run_application_def run_simps)
next
  case (Some pr)
  obtain p n where pr: "pr = (p, n)" by (cases pr)
  obtain r where "subprocess_run env [''dotnet'', ''run'', ''--project'', p, ''--no-build''] = Inr r"
    using assms exit_code_Some by blast
  with Some pr show ?thesis by (simp add: run_application_def run_simps)
qed

subsection \<open>The stages of \<open>main\<close>\<close>

lemma printed_simps [simp]:
  "printed s [] = False"
  "printed s (Print t # out) = (s = t \<or> printed s out)"
  "printed s (Echo t # out) = printed s out"
  "printed s (Run c # out) = printed s out"
  "printed s (Rmtree t # out) = printed s out"
  "printed s (xs @ ys) = (printed s xs \<or> printed s ys)"
  by (auto simp: printed_def)

lemma sdk_check_result:
  "fst (sdk_check env)
     = (case subprocess_run env [''dotnet'', ''--version''] of
          Inl e \<Rightarrow> Inl e
        | Inr r \<Rightarrow> if returncode r \<noteq> 0 then Inl (SystemExit 1) else Inr ())"
  by (simp add: sdk_check_def run_simps split: sum.splits)

lemma sdk_check_lines: "lines_from [''Running: '', ''ERROR: ''] (snd (sdk_check env))"
  unfolding sdk_check_def
  by (rule lines_from_bind, rule run_command_lines') (simp_all add: ListMem_iff run_simps)

lemma clean_stage_lines:
  "lines_from [''Cleaning '', ''Removing '', ''Running: '', ''Clean complete!'']
     (snd (guarded (clean a) (clean_project env)))"
  by (rule lines_from_guarded) (rule clean_project_lines)

lemma build_stage_result:
  "fst (build_stage env a)
     = (if skip_build a then Inr True
        else case fst (build_project env (configuration a)) of
               Inl e \<Rightarrow> Inl e
             | Inr b \<Rightarrow> if b then Inr True
                        else if truthy (run a) then Inr False else Inl (SystemExit 1))"
  by (simp add: build_stage_def run_simps split: sum.splits)

lemma build_stage_output:
  "snd (build_stage env a)
     = (if skip_build a then []
        else snd (build_project env (configuration a))
             @ (if fst (build_project env (configuration a)) = Inr False
                then [Print ''Build failed!''] else []))"
  by (auto simp: build_stage_def run_simps split: sum.splits)

lemma build_stage_lines:
  "lines_from [''Building '', ''Running: '', ''Build failed for '', ''Build successful for '',
               ''Solution '', ''Build failed!''] (snd (build_stage env a))"
  unfolding build_stage_output
  by (simp add: lines_from_mono [OF build_project_lines])

lemma build_failed_stage:
  "build_failed (snd (build_stage env a))
     = (\<not> skip_build a \<and> fst (build_project env (configuration a)) = Inr False)"
proof -
  have "\<not> printed ''Build failed!'' (snd (build_project env (configuration a)))"
    by (rule not_printed [OF build_project_lines]) simp
  then show ?thesis
    by (simp add: build_failed_def build_stage_output)
qed

lemma test_stage_result:
  "fst (test_stage env a b)
     = (if test a \<and> b then
          case fst (run_tests env) of
            Inl e \<Rightarrow> Inl e
          | Inr t \<Rightarrow> if t then Inr True
                     else if truthy (run a) then Inr False else Inl (SystemExit 1)
        else Inr True)"
  by (simp add: test_stage_def run_simps split: sum.splits)

lemma test_stage_output:
  "snd (test_stage env a b)
     = (if test a \<and> b then
          snd (run_tests env)
          @ (if fst (run_tests env) = Inr False then [Print ''Tests failed!''] else [])
        else [])"
  by (auto simp: test_stage_def run_simps split: sum.splits)

lemma test_stage_lines:
  "lines_from [''Running tests...'', ''Running tests for '', ''Running: '', ''Tests failed for '',
               ''Tests passed for '', ''Test project '', ''Tests failed!'']
     (snd (test_stage env a b))"
  unfolding test_stage_output
  by (simp add: lines_from_mono [OF run_tests_lines])

lemma tests_failed_stage:
  "tests_failed (snd (test_stage env a b))
     = (test a \<and> b \<and> fst (run_tests env) = Inr False)"
proof -
  have "\<not> printed ''Tests failed!'' (snd (run_tests env))"
    by (rule not_printed [OF run_tests_lines]) simp
  then show ?thesis
    by (auto simp: tests_failed_def test_stage_output)
qed

lemma run_stage_result:
  "fst (run_stage env a b)
     = (if run a \<noteq> None \<and> b
        then fst (run_application env (if truthy (run a) then run a else None))
        else Inr True)"
  by (simp add: run_stage_def run_simps Let_def split: sum.splits)

lemma run_stage_output:
  "snd (run_stage env a b)
     = (if run a \<noteq> None \<and> b then
          snd (run_application env (if truthy (run a) then run a else None))
          @ (if fst (run_application env (if truthy (run a) then run a else None)) = Inr False
             then [Print ''Failed to run application!''] else [])
        else [])"
  by (auto simp: run_stage_def run_simps Let_def split: sum.splits)

lemma run_stage_lines:
  "lines_from [''Running application...'', ''No runnable projects found!'', ''Running demo: '',
               ''Running app: '', ''Running: '', ''Project '', ''Failed to run application!'']
     (snd (run_stage env a b))"
  unfolding run_stage_output
  by (simp add: lines_from_mono [OF run_application_lines])

lemma summary_result:
  "fst (summary a b t r) = (if \<not> b \<or> (test a \<and> \<not> t) then Inl (SystemExit 1) else Inr ())"
  by (simp add: summary_def run_simps)

lemma summary_output:
  "snd (summary a b t r)
     = Print summary_header
       # (if \<not> skip_build a then [Print (''Build: '' @ mark b)] else [])
       @ (if test a then [Print (''Tests: '' @ mark t)] else [])
       @ (if run a \<noteq> None then [Print (''Run: '' @ mark r)] else [])"
  by (simp add: summary_def run_simps)

lemma summary_lines:
  "lines_from [CHR 0x0A # ''=== Build Summary ==='', ''Build: '', ''Tests: '', ''Run: '']
     (snd (summary a b t r))"
  by (simp add: summary_output summary_header_def)

text \<open>How far the body of the \<open>try\<close> gets, and what it has printed by then.\<close>

lemma main_body_cases:
  obtains
    (sdk) e where
      "fst (sdk_check env) = Inl e"
      "main_body env a = (Inl e, snd (sdk_check env))"
  | (clean) e where
      "fst (sdk_check env) = Inr ()" "clean a" "fst (clean_project env) = Inl e"
      "main_body env a = (Inl e, snd (sdk_check env) @ snd (clean_project env))"
  | (build) e where
      "fst (sdk_check env) = Inr ()" "fst (guarded (clean a) (clean_project env)) = Inr ()"
      "fst (build_stage env a) = Inl e"
      "main_body env a
         = (Inl e, snd (sdk_check env) @ snd (guarded (clean a) (clean_project env))
                   @ snd (build_stage env a))"
  | (test) b e where
      "fst (sdk_check env) = Inr ()" "fst (guarded (clean a) (clean_project env)) = Inr ()"
      "fst (build_stage env a) = Inr b" "fst (test_stage env a b) = Inl e"
      "main_body env a
         = (Inl e, snd (sdk_check env) @ snd (guarded (clean a) (clean_project env))
                   @ snd (build_stage env a) @ snd (test_stage env a b))"
  | (run) b t e where
      "fst (sdk_check env) = Inr ()" "fst (guarded (clean a) (clean_project env)) = Inr ()"
      "fst (build_stage env a) = Inr b" "fst (test_stage env a b) = Inr t"
      "fst (run_stage env a b) = Inl e"
      "main_body env a
         = (Inl e, snd (sdk_check env) @ snd (guarded (clean a) (clean_project env))
                   @ snd (build_stage env a) @ snd (test_stage env a b)
                   @ snd (run_stage env a b))"
  | (summary) b t r where
      "fst (sdk_check env) = Inr ()" "fst (guarded (clean a) (clean_project env)) = Inr ()"
      "fst (build_stage env a) = Inr b" "fst (test_stage env a b) = Inr t"
      "fst (run_stage env a b) = Inr r"
      "main_body env a
         = (fst (summary a b t r),
            snd (sdk_check env) @ snd (guarded (clean a) (clean_project env))
              @ snd (build_stage env a) @ snd (test_stage env a b)
              @ snd (run_stage env a b) @ snd (summary a b t r))"
proof (cases "fst (sdk_check env)")
  case (Inl e)
  then have "main_body env a = (Inl e, snd (sdk_check env))"
    by (intro prod_eqI) (simp_all add: main_body_def run_simps)
  with Inl show ?thesis by (rule sdk)
next
  case s: (Inr u)
  show ?thesis
  proof (cases "fst (guarded (clean a) (clean_project env))")
    case (Inl e)
    then have c: "clean a" "fst (clean_project env) = Inl e"
      by (auto simp: fst_guarded split: if_splits)
    with s have "main_body env a = (Inl e, snd (sdk_check env) @ snd (clean_project env))"
      by (intro prod_eqI) (simp_all add: main_body_def run_simps)
    with s c show ?thesis by (auto intro: clean)
  next
    case c: (Inr u')
    show ?thesis
    proof (cases "fst (build_stage env a)")
      case (Inl e)
      with s c have "main_body env a
         = (Inl e, snd (sdk_check env) @ snd (guarded (clean a) (clean_project env))
                   @ snd (build_stage env a))"
        by (intro prod_eqI) (simp_all add: main_body_def fst_bind snd_bind fst_seq snd_seq)
      with s c Inl show ?thesis by (auto intro: build)
    next
      case b: (Inr b)
      show ?thesis
      proof (cases "fst (test_stage env a b)")
        case (Inl e)
        with s c b have "main_body env a
         = (Inl e, snd (sdk_check env) @ snd (guarded (clean a) (clean_project env))
                   @ snd (build_stage env a) @ snd (test_stage env a b))"
          by (intro prod_eqI) (simp_all add: main_body_def fst_bind snd_bind fst_seq snd_seq)
        with s c b Inl show ?thesis by (auto intro: test)
      next
        case t: (Inr t)
        show ?thesis
        proof (cases "fst (run_stage env a b)")
          case (Inl e)
          with s c b t have "main_body env a
            = (Inl e, snd (sdk_check env) @ snd (guarded (clean a) (clean_project env))
                   @ snd (build_stage env a) @ snd (test_stage env a b)
                   @ snd (run_stage env a b))"
            by (intro prod_eqI) (simp_all add: main_body_def fst_bind snd_bind fst_seq snd_seq)
          with s c b t Inl show ?thesis by (auto intro: run)
        next
          case r: (Inr r)
          with s c b t have "main_body env a
            = (fst (summary a b t r),
               snd (sdk_check env) @ snd (guarded (clean a) (clean_project env))
                 @ snd (build_stage env a) @ snd (test_stage env a b)
                 @ snd (run_stage env a b) @ snd (summary a b t r))"
            by (intro prod_eqI) (simp_all add: main_body_def fst_bind snd_bind fst_seq snd_seq)
          with s c b t r show ?thesis by (auto intro: summary)
        qed
      qed
    qed
  qed
qed

text \<open>What the script does once the body of the \<open>try\<close> is over.\<close>

lemma main_of_body:
  assumes "os_chdir env = None" and "main_body env a = (res, out)"
  shows "script (main env a)
     = (case res of
          Inr u \<Rightarrow> (Exit 0, Print ''=== CsharpUAI Build Script ==='' # out)
        | Inl (SystemExit n) \<Rightarrow> (Exit n, Print ''=== CsharpUAI Build Script ==='' # out)
        | Inl KeyboardInterrupt \<Rightarrow>
            (Exit 1, Print ''=== CsharpUAI Build Script ==='' # out
                     @ [Print (CHR 0x0A # ''Build interrupted by user.'')])
        | Inl e \<Rightarrow>
            (Exit 1, Print ''=== CsharpUAI Build Script ==='' # out
                     @ [Print (''Build failed: '' @ str_exn e)]))"
  using assms
  by (simp add: main_def script_def run_simps fst_may_raise fst_try_except snd_try_except
           split: sum.splits exn.splits)

lemma main_chdir_fails:
  assumes "os_chdir env = Some e"
  shows "main env a = (Inl e, [Print ''=== CsharpUAI Build Script ===''])"
  using assms by (intro prod_eqI) (simp_all add: main_def run_simps fst_may_raise)

lemma main_output:
  assumes "os_chdir env = None" and "main_body env a = (res, out)"
  shows "snd (main env a) = Print ''=== CsharpUAI Build Script ==='' # out @ handler_output res"
  using assms
  by (simp add: main_def run_simps fst_may_raise snd_try_except handler_output_def
           split: sum.splits option.splits)

lemma main_ending:
  assumes "os_chdir env = None" and "main_body env a = (res, out)"
  shows "fst (script (main env a))
       = (case res of Inr u \<Rightarrow> Exit 0 | Inl (SystemExit n) \<Rightarrow> Exit n | Inl e \<Rightarrow> Exit 1)"
  unfolding main_of_body [OF assms]
  by (simp split: sum.splits exn.splits)

lemma handler_output_lines:
  "lines_from [CHR 0x0A # ''Build interrupted'', ''Build failed: ''] (handler_output res)"
proof (cases res)
  case (Inl e)
  then show ?thesis by (cases e) (simp_all add: handler_output_def run_simps)
next
  case (Inr u)
  then show ?thesis by (simp add: handler_output_def)
qed

lemma hidden_from_build_failed:
  "\<not> printed ''Build failed!'' (snd (sdk_check env))"
  "\<not> printed ''Build failed!'' (snd (guarded (clean a) (clean_project env)))"
  "\<not> printed ''Build failed!'' (snd (clean_project env))"
  "\<not> printed ''Build failed!'' (snd (test_stage env a b))"
  "\<not> printed ''Build failed!'' (snd (run_stage env a b))"
  "\<not> printed ''Build failed!'' (snd (summary a b t r))"
  by (rule not_printed [OF sdk_check_lines], simp,
      rule not_printed [OF clean_stage_lines], simp,
      rule not_printed [OF clean_project_lines], simp,
      rule not_printed [OF test_stage_lines], simp,
      rule not_printed [OF run_stage_lines], simp,
      rule not_printed [OF summary_lines], simp)

lemma hidden_from_tests_failed:
  "\<not> printed ''Tests failed!'' (snd (sdk_check env))"
  "\<not> printed ''Tests failed!'' (snd (guarded (clean a) (clean_project env)))"
  "\<not> printed ''Tests failed!'' (snd (clean_project env))"
  "\<not> printed ''Tests failed!'' (snd (build_stage env a))"
  "\<not> printed ''Tests failed!'' (snd (run_stage env a b))"
  "\<not> printed ''Tests failed!'' (snd (summary a b t r))"
  by (rule not_printed [OF sdk_check_lines], simp,
      rule not_printed [OF clean_stage_lines], simp,
      rule not_printed [OF clean_project_lines], simp,
      rule not_printed [OF build_stage_lines], simp,
      rule not_printed [OF run_stage_lines], simp,
      rule not_printed [OF summary_lines], simp)

lemma hidden_from_tests_started:
  "\<not> printed ''Running tests...'' (snd (sdk_check env))"
  "\<not> printed ''Running tests...'' (snd (guarded (clean a) (clean_project env)))"
  "\<not> printed ''Running tests...'' (snd (clean_project env))"
  "\<not> printed ''Running tests...'' (snd (build_stage env a))"
  "\<not> printed ''Running tests...'' (snd (run_stage env a b))"
  "\<not> printed ''Running tests...'' (snd (summary a b t r))"
  by (rule not_printed [OF sdk_check_lines], simp,
      rule not_printed [OF clean_stage_lines], simp,
      rule not_printed [OF clean_project_lines], simp,
      rule not_printed [OF build_stage_lines], simp,
      rule not_printed [OF run_stage_lines], simp,
      rule not_printed [OF summary_lines], simp)

lemma hidden_from_run_started:
  "\<not> printed ''Running application...'' (snd (sdk_check env))"
  "\<not> printed ''Running application...'' (snd (guarded (clean a) (clean_project env)))"
  "\<not> printed ''Running application...'' (snd (clean_project env))"
  "\<not> printed ''Running application...'' (snd (build_stage env a))"
  "\<not> printed ''Running application...'' (snd (test_stage env a b))"
  "\<not> printed ''Running application...'' (snd (summary a b t r))"
  by (rule not_printed [OF sdk_check_lines], simp,
      rule not_printed [OF clean_stage_lines], simp,
      rule not_printed [OF clean_project_lines], simp,
      rule not_printed [OF build_stage_lines], simp,
      rule not_printed [OF test_stage_lines], simp,
      rule not_printed [OF summary_lines], simp)

lemma hidden_from_tail:
  "\<not> printed ''Build failed!'' (handler_output res)"
  "\<not> printed ''Tests failed!'' (handler_output res)"
  "\<not> printed ''Running tests...'' (handler_output res)"
  "\<not> printed ''Running application...'' (handler_output res)"
  by (rule not_printed [OF handler_output_lines], simp)+

text \<open>
  Once \<open>main\<close> has printed that the build failed, neither the tests nor the
  application are started, and the script ends with status 1.
\<close>

lemma after_build_failure:
  assumes bf: "build_failed (snd (main env a))"
  shows "fst (script (main env a)) = Exit 1 \<and> \<not> tests_started (snd (main env a))
         \<and> \<not> run_started (snd (main env a))"
proof (cases "os_chdir env")
  case (Some e)
  with bf show ?thesis by (simp add: main_chdir_fails build_failed_def)
next
  case None
  note hid = hidden_from_build_failed hidden_from_tests_started hidden_from_run_started
    hidden_from_tail
  note out = main_output [OF None] and en = main_ending [OF None]
  have stage: "b = False \<and> \<not> skip_build a" if "build_failed (snd (build_stage env a))"
    "fst (build_stage env a) = Inr b" for b
    using that by (simp add: build_failed_stage build_stage_result split: if_splits)
  show ?thesis
  proof (cases rule: main_body_cases [of env a])
    case (sdk e)
    from bf show ?thesis
      by (simp add: out [OF sdk(2)] build_failed_def hid)
  next
    case (clean e)
    from bf show ?thesis
      by (simp add: out [OF clean(4)] build_failed_def hid)
  next
    case (build e)
    from bf have "build_failed (snd (build_stage env a))"
      by (simp add: out [OF build(4)] build_failed_def hid)
    with build(3) have "e = SystemExit 1"
      by (simp add: build_failed_stage build_stage_result split: if_splits)
    then show ?thesis
      by (simp add: out [OF build(4)] en [OF build(4)] tests_started_def run_started_def hid)
  next
    case (test b e)
    from bf have "build_failed (snd (build_stage env a))"
      by (simp add: out [OF test(5)] build_failed_def hid)
    with test(3) have "b = False" using stage by blast
    with test(4) show ?thesis by (simp add: test_stage_result)
  next
    case (run b t e)
    from bf have "build_failed (snd (build_stage env a))"
      by (simp add: out [OF run(6)] build_failed_def hid)
    with run(3) have "b = False" using stage by blast
    with run(5) show ?thesis by (simp add: run_stage_result)
  next
    case (summary b t r)
    from bf have "build_failed (snd (build_stage env a))"
      by (simp add: out [OF summary(6)] build_failed_def hid)
    with summary(3) have "b = False" using stage by blast
    then show ?thesis
      by (simp add: out [OF summary(6)] en [OF summary(6)] tests_started_def run_started_def hid
                    summary_result test_stage_output run_stage_output)
  qed
qed

subsection \<open>Failed phases and the exit status\<close>

lemmas build_defs = main_def main_body_def sdk_check_def run_command_def clean_project_def
  clean_dirs_def solutions_def build_stage_def build_project_def test_stage_def run_tests_def
  test_projects_def run_stage_def run_application_def choose_project_def default_project_def
  runnable_projects_def summary_def summary_header_def mark_def

lemmas example_defs = all_fine_def failing_def subcommand_def

lemmas reading_defs = printed_def tests_started_def run_started_def build_failed_def

text \<open>
  C7. When \<open>--test\<close> is given and \<open>main\<close> reports that the build failed, the
  tests are not started and the script ends with status 1.
\<close>

theorem failed_build_skips_tests:
  assumes "test a" and "build_failed (snd (main env a))"
  shows "\<not> tests_started (snd (main env a)) \<and> fst (script (main env a)) = Exit 1"
  using after_build_failure [OF assms(2)] by simp

theorem failed_build_skips_tests_witness:
  "test \<lparr>clean = False, configuration = ''Release'', test = True, run = None, skip_build = False\<rparr>
   \<and> build_failed (snd (main (failing ''build'' 1)
        \<lparr>clean = False, configuration = ''Release'', test = True, run = None, skip_build = False\<rparr>))
   \<and> \<not> tests_started (snd (main (failing ''build'' 1)
        \<lparr>clean = False, configuration = ''Release'', test = True, run = None, skip_build = False\<rparr>))
   \<and> fst (script (main (failing ''build'' 1)
        \<lparr>clean = False, configuration = ''Release'', test = True, run = None, skip_build = False\<rparr>))
       = Exit 1"
proof -
  let ?a = "\<lparr>clean = False, configuration = ''Release'', test = True, run = None,
             skip_build = False\<rparr>"
  have t: "test ?a" by simp
  have b: "build_failed (snd (main (failing ''build'' 1) ?a))"
    by (simp add: build_defs example_defs reading_defs run_defs)
  from failed_build_skips_tests [OF t b] t b show ?thesis by simp
qed

text \<open>
  C2, as stated, fails: with \<open>--run demo\<close> and a build that fails, the application
  is not started.
\<close>

theorem failed_build_run_counterexample:
  "\<not> skip_build \<lparr>clean = False, configuration = ''Release'', test = False, run = Some ''demo'',
                  skip_build = False\<rparr>
   \<and> build_failed (snd (main (failing ''build'' 1)
        \<lparr>clean = False, configuration = ''Release'', test = False, run = Some ''demo'',
         skip_build = False\<rparr>))
   \<and> \<not> run_started (snd (main (failing ''build'' 1)
        \<lparr>clean = False, configuration = ''Release'', test = False, run = Some ''demo'',
         skip_build = False\<rparr>))"
  by (simp add: build_defs example_defs reading_defs run_defs)

text \<open>
  C2, amended. When the build is not skipped, \<open>--run\<close> is given and \<open>main\<close>
  reports that the build failed, the application is not started, and the
  script ends with status 1.
\<close>

theorem failed_build_skips_run:
  assumes "\<not> skip_build a" and "run a \<noteq> None" and "build_failed (snd (main env a))"
  shows "\<not> run_started (snd (main env a)) \<and> fst (script (main env a)) = Exit 1"
  using after_build_failure [OF assms(3)] by simp

theorem failed_build_skips_run_witness:
  "build_failed (snd (main (failing ''build'' 2)
        \<lparr>clean = True, configuration = ''Debug'', test = False, run = Some [], skip_build = False\<rparr>))
   \<and> \<not> run_started (snd (main (failing ''build'' 2)
        \<lparr>clean = True, configuration = ''Debug'', test = False, run = Some [], skip_build = False\<rparr>))
   \<and> fst (script (main (failing ''build'' 2)
        \<lparr>clean = True, configuration = ''Debug'', test = False, run = Some [], skip_build = False\<rparr>))
       = Exit 1"
proof -
  let ?a = "\<lparr>clean = True, configuration = ''Debug'', test = False, run = Some [],
             skip_build = False\<rparr>"
  have s: "\<not> skip_build ?a" and r: "run ?a \<noteq> None" by simp_all
  have b: "build_failed (snd (main (failing ''build'' 2) ?a))"
    by (simp add: build_defs example_defs reading_defs run_defs)
  from failed_build_skips_run [OF s r b] b show ?thesis by simp
qed

lemma build_project_result:
  assumes "\<And>cmd. exit_code env cmd \<noteq> None"
  shows "fst (build_project env c)
           = Inr (\<forall>s\<in>set solutions. path_exists env s \<longrightarrow>
                    exit_code env [''dotnet'', ''build'', s, ''--configuration'', c,
                                   ''--no-restore''] = Some 0)"
  by (simp add: build_project_def fst_seq build_solutions_result [OF assms])

lemma run_tests_result:
  assumes "\<And>cmd. exit_code env cmd \<noteq> None"
  shows "fst (run_tests env)
           = Inr (\<forall>p\<in>set test_projects. path_exists env p \<longrightarrow>
                    exit_code env [''dotnet'', ''test'', p, ''--no-build'', ''--verbosity'',
                                   ''normal''] = Some 0)"
  by (simp add: run_tests_def fst_seq test_each_result [OF assms])

text \<open>
  C3, as stated, fails: when the build command cannot be spawned, \<open>build_project\<close>
  returns no result but raises; \<open>main\<close> catches the error in its last \<open>except\<close>
  clause, prints it and ends with status 1, without a summary and without the
  line that reports a failed build.
\<close>

theorem spawn_failure_counterexample:
  "fst (build_project (unspawnable ''build'' ''[Errno 2] No such file or directory'') ''Release'')
     = Inl (OSError ''[Errno 2] No such file or directory'')
   \<and> fst (script (main (unspawnable ''build'' ''[Errno 2] No such file or directory'')
        \<lparr>clean = False, configuration = ''Release'', test = True, run = None, skip_build = False\<rparr>))
     = Exit 1
   \<and> printed ''Build failed: [Errno 2] No such file or directory''
        (snd (main (unspawnable ''build'' ''[Errno 2] No such file or directory'')
        \<lparr>clean = False, configuration = ''Release'', test = True, run = None, skip_build = False\<rparr>))
   \<and> \<not> build_failed
        (snd (main (unspawnable ''build'' ''[Errno 2] No such file or directory'')
        \<lparr>clean = False, configuration = ''Release'', test = True, run = None, skip_build = False\<rparr>))
   \<and> \<not> printed summary_header
        (snd (main (unspawnable ''build'' ''[Errno 2] No such file or directory'')
        \<lparr>clean = False, configuration = ''Release'', test = True, run = None, skip_build = False\<rparr>))"
  by (simp add: build_defs example_defs unspawnable_def reading_defs run_defs)

lemma clean_project_complete:
  assumes "\<And>cmd. exit_code env cmd \<noteq> None"
  shows "printed ''Clean complete!'' (snd (clean_project env))"
  by (simp add: clean_project_def run_simps clean_solutions_result [OF assms])

text \<open>
  C3, amended. Let every child process that is started be spawned and run to
  completion. Then none of the four phases raises, and
  \<^item> the build phase fails exactly when the build command of a solution file
    that exists ends with a code other than 0;
  \<^item> the test phase fails exactly when the test command of a test project
    that exists ends with a code other than 0;
  \<^item> the run phase fails exactly when no project to run is found, or the chosen
    project file does not exist (no child is started in these two cases), or
    the run command ends with a code other than 0;
  \<^item> the clean phase reports no result: whatever codes its \<open>dotnet clean\<close>
    commands end with, it returns nothing and prints \<open>Clean complete!\<close>.
\<close>

theorem phase_result_of_exit_codes:
  assumes "\<forall>cmd. exit_code env cmd \<noteq> None"
  shows "fst (build_project env c)
           = Inr (\<forall>s\<in>set solutions. path_exists env s \<longrightarrow>
                    exit_code env [''dotnet'', ''build'', s, ''--configuration'', c,
                                   ''--no-restore''] = Some 0)
       \<and> fst (run_tests env)
           = Inr (\<forall>p\<in>set test_projects. path_exists env p \<longrightarrow>
                    exit_code env [''dotnet'', ''test'', p, ''--no-build'', ''--verbosity'',
                                   ''normal''] = Some 0)
       \<and> fst (run_application env project_name)
           = Inr (case choose_project env project_name of
                    None \<Rightarrow> False
                  | Some (project_to_run, name) \<Rightarrow> path_exists env project_to_run
                      \<and> exit_code env [''dotnet'', ''run'', ''--project'', project_to_run,
                                        ''--no-build''] = Some 0)
       \<and> fst (clean_project env) = Inr ()
       \<and> printed ''Clean complete!'' (snd (clean_project env))"
proof -
  from assms have c: "\<And>cmd. exit_code env cmd \<noteq> None" by simp
  show ?thesis
    by (intro conjI build_project_result run_tests_result run_application_result
              clean_project_result clean_project_complete c)
qed

theorem phase_result_of_exit_codes_witness:
  "(\<forall>cmd. exit_code (failing ''build'' 1) cmd \<noteq> None)
   \<and> fst (build_project (failing ''build'' 1) ''Release'') = Inr False
   \<and> fst (run_tests (failing ''build'' 1)) = Inr True
   \<and> fst (run_application (failing ''build'' 1) (Some ''app'')) = Inr True
   \<and> (\<forall>cmd. exit_code (failing ''run'' 3) cmd \<noteq> None)
   \<and> fst (run_application (failing ''run'' 3) None) = Inr False
   \<and> (\<forall>cmd. exit_code (failing ''clean'' 1) cmd \<noteq> None)
   \<and> exit_code (failing ''clean'' 1) [''dotnet'', ''clean'', ''MultiLLM.sln''] = Some 1
   \<and> fst (clean_project (failing ''clean'' 1)) = Inr ()
   \<and> printed ''Clean complete!'' (snd (clean_project (failing ''clean'' 1)))"
proof -
  have 1: "\<forall>cmd. exit_code (failing ''build'' 1) cmd \<noteq> None"
    by (simp add: exit_code_def example_defs)
  have 2: "\<forall>cmd. exit_code (failing ''run'' 3) cmd \<noteq> None"
    by (simp add: exit_code_def example_defs)
  have 5: "\<forall>cmd. exit_code (failing ''clean'' 1) cmd \<noteq> None"
    by (simp add: exit_code_def example_defs)
  have 6: "exit_code (failing ''clean'' 1) [''dotnet'', ''clean'', ''MultiLLM.sln''] = Some 1"
    by (simp add: exit_code_def example_defs)
  from phase_result_of_exit_codes [OF 1, of "''Release''" "Some ''app''"]
  have 3: "fst (build_project (failing ''build'' 1) ''Release'') = Inr False
         \<and> fst (run_tests (failing ''build'' 1)) = Inr True
         \<and> fst (run_application (failing ''build'' 1) (Some ''app'')) = Inr True"
    by (auto simp: exit_code_def example_defs solutions_def test_projects_def choose_project_def
                   runnable_projects_def)
  from phase_result_of_exit_codes [OF 2, of _ None]
  have 4: "fst (run_application (failing ''run'' 3) None) = Inr False"
    by (simp add: exit_code_def example_defs choose_project_def default_project_def)
  from phase_result_of_exit_codes [OF 5]
  have 7: "fst (clean_project (failing ''clean'' 1)) = Inr ()
         \<and> printed ''Clean complete!'' (snd (clean_project (failing ''clean'' 1)))"
    by simp
  from 1 2 3 4 5 6 7 show ?thesis by simp
qed

text \<open>
  C1, as stated, fails in both directions. When the check of the .NET SDK in
  lines 207 to 211 fails, the script ends with status 1 and no phase has been
  entered. When a \<open>dotnet clean\<close> command of the clean phase ends with code 1 and
  everything else succeeds, the script ends with status 0.
\<close>

theorem exit_status_counterexample:
  "fst (script (main (failing ''--version'' 1)
        \<lparr>clean = True, configuration = ''Release'', test = True, run = Some ''demo'',
         skip_build = False\<rparr>)) = Exit 1
   \<and> \<not> clean_started (snd (main (failing ''--version'' 1)
        \<lparr>clean = True, configuration = ''Release'', test = True, run = Some ''demo'',
         skip_build = False\<rparr>))
   \<and> \<not> build_started
        \<lparr>clean = True, configuration = ''Release'', test = True, run = Some ''demo'',
         skip_build = False\<rparr>
        (snd (main (failing ''--version'' 1)
        \<lparr>clean = True, configuration = ''Release'', test = True, run = Some ''demo'',
         skip_build = False\<rparr>))
   \<and> \<not> tests_started (snd (main (failing ''--version'' 1)
        \<lparr>clean = True, configuration = ''Release'', test = True, run = Some ''demo'',
         skip_build = False\<rparr>))
   \<and> \<not> run_started (snd (main (failing ''--version'' 1)
        \<lparr>clean = True, configuration = ''Release'', test = True, run = Some ''demo'',
         skip_build = False\<rparr>))
   \<and> exit_code (failing ''clean'' 1) [''dotnet'', ''clean'', ''MultiLLM.sln''] = Some 1
   \<and> clean_started (snd (main (failing ''clean'' 1)
        \<lparr>clean = True, configuration = ''Release'', test = True, run = Some ''demo'',
         skip_build = False\<rparr>))
   \<and> Run [''dotnet'', ''clean'', ''MultiLLM.sln'']
        \<in> set (snd (main (failing ''clean'' 1)
        \<lparr>clean = True, configuration = ''Release'', test = True, run = Some ''demo'',
         skip_build = False\<rparr>))
   \<and> fst (script (main (failing ''clean'' 1)
        \<lparr>clean = True, configuration = ''Release'', test = True, run = Some ''demo'',
         skip_build = False\<rparr>)) = Exit 0"
  by (simp add: build_defs example_defs reading_defs clean_started_def build_started_def run_defs
                exit_code_def)

text \<open>
  A run that fails is shown in the summary and leaves the exit status at 0;
  so does a clean command that fails.
\<close>

lemma failed_run_exit_status:
  "script (main (failing ''run'' 1)
        \<lparr>clean = False, configuration = ''Release'', test = False, run = Some ''demo'',
         skip_build = True\<rparr>)
     = (Exit 0,
        [Print ''=== CsharpUAI Build Script ==='',
         Print ''Running: dotnet --version'', Run [''dotnet'', ''--version''],
         Print ''Running application...'',
         Print ''Running demo: MultiLLM.Demo/MultiLLM.Demo.csproj'',
         Print ''Running: dotnet run --project MultiLLM.Demo/MultiLLM.Demo.csproj --no-build'',
         Run [''dotnet'', ''run'', ''--project'', ''MultiLLM.Demo/MultiLLM.Demo.csproj'',
              ''--no-build''],
         Print ''Failed to run application!'',
         Print summary_header,
         Print (''Run: '' @ mark False)])"
  by (simp add: build_defs example_defs run_defs)

text \<open>
  C1, amended. When the check of the SDK ends with a code other than 0, the
  script ends with status 1. When it ends with 0, every child process is
  spawned and runs to completion, and the run phase does not fail, the script
  ends with status 1 if \<open>main\<close> reported a failed build or failed tests, and with
  status 0 otherwise; the exit codes of the clean commands play no part.
\<close>

theorem exit_status_of_build_and_tests:
  "(os_chdir env = None \<and> exit_code env [''dotnet'', ''--version''] = Some n \<and> n \<noteq> 0
      \<longrightarrow> fst (script (main env a)) = Exit 1)
 \<and> (os_chdir env = None \<and> (\<forall>cmd. exit_code env cmd \<noteq> None)
      \<and> exit_code env [''dotnet'', ''--version''] = Some 0
      \<and> \<not> run_failed (snd (main env a))
      \<longrightarrow> fst (script (main env a))
            = (if build_failed (snd (main env a)) \<or> tests_failed (snd (main env a))
               then Exit 1 else Exit 0))"
proof (intro conjI impI)
  assume h: "os_chdir env = None \<and> exit_code env [''dotnet'', ''--version''] = Some n \<and> n \<noteq> 0"
  then have "fst (sdk_check env) = Inl (SystemExit 1)"
    by (auto simp: sdk_check_result exit_code_def split: sum.splits)
  then have "main_body env a = (Inl (SystemExit 1), snd (sdk_check env))"
    by (intro prod_eqI) (simp_all add: main_body_def run_simps)
  with h show "fst (script (main env a)) = Exit 1"
    by (simp add: main_ending)
next
  assume h: "os_chdir env = None \<and> (\<forall>cmd. exit_code env cmd \<noteq> None)
      \<and> exit_code env [''dotnet'', ''--version''] = Some 0
      \<and> \<not> run_failed (snd (main env a))"
  then have None: "os_chdir env = None" and c: "\<And>cmd. exit_code env cmd \<noteq> None" by simp_all
  note out = main_output [OF None] and en = main_ending [OF None]
  note hid = hidden_from_build_failed hidden_from_tests_failed
  from h have s: "fst (sdk_check env) = Inr ()"
    by (auto simp: sdk_check_result exit_code_def split: sum.splits)
  have cl: "fst (guarded (clean a) (clean_project env)) = Inr ()"
    by (simp add: fst_guarded clean_project_result [OF c])
  note bp = build_project_result [OF c] and tp = run_tests_result [OF c]
    and rp = run_application_result [OF c]
  have tail: "\<not> printed ''Build failed!'' (handler_output res)"
    "\<not> printed ''Tests failed!'' (handler_output res)" for res
    by (rule hidden_from_tail)+
  show "fst (script (main env a))
            = (if build_failed (snd (main env a)) \<or> tests_failed (snd (main env a))
               then Exit 1 else Exit 0)"
  proof (cases rule: main_body_cases [of env a])
    case (sdk e)
    with s show ?thesis by simp
  next
    case (clean e)
    with cl show ?thesis by (simp add: fst_guarded)
  next
    case (build e)
    from build(3) have e: "e = SystemExit 1" and "build_failed (snd (build_stage env a))"
      by (auto simp: build_stage_result build_failed_stage bp split: if_splits)
    then have "build_failed (snd (main env a))"
      by (simp add: out [OF build(4)] build_failed_def)
    with e show ?thesis by (simp add: en [OF build(4)])
  next
    case (test b e)
    from test(4) have e: "e = SystemExit 1" and "tests_failed (snd (test_stage env a b))"
      by (auto simp: test_stage_result tests_failed_stage tp split: if_splits)
    then have "tests_failed (snd (main env a))"
      by (simp add: out [OF test(5)] tests_failed_def)
    with e show ?thesis by (simp add: en [OF test(5)])
  next
    case (run b t e)
    from run(5) show ?thesis
      by (simp add: run_stage_result rp split: if_splits)
  next
    case (summary b t r)
    from summary(3) have b: "build_failed (snd (build_stage env a)) = (\<not> b)"
      by (auto simp: build_stage_result build_failed_stage bp split: if_splits)
    from summary(4) have t: "tests_failed (snd (test_stage env a b)) = (\<not> t)"
      and t': "\<not> t \<Longrightarrow> test a"
      by (auto simp: test_stage_result tests_failed_stage tp split: if_splits)
    have "build_failed (snd (main env a)) = (\<not> b)"
      using b by (simp add: out [OF summary(6)] build_failed_def hid tail)
    moreover have "tests_failed (snd (main env a)) = (\<not> t)"
      using t by (simp add: out [OF summary(6)] tests_failed_def hid tail)
    ultimately show ?thesis
      using t' by (auto simp: en [OF summary(6)] summary_result)
  qed
qed

theorem exit_status_of_build_and_tests_witness:
  "fst (script (main (failing ''--version'' 127)
        \<lparr>clean = False, configuration = ''Release'', test = True, run = None, skip_build = False\<rparr>))
     = Exit 1
   \<and> tests_failed (snd (main (failing ''test'' 1)
        \<lparr>clean = True, configuration = ''Release'', test = True, run = Some ''app'',
         skip_build = False\<rparr>))
   \<and> fst (script (main (failing ''test'' 1)
        \<lparr>clean = True, configuration = ''Release'', test = True, run = Some ''app'',
         skip_build = False\<rparr>)) = Exit 1
   \<and> fst (script (main (failing ''clean'' 1)
        \<lparr>clean = True, configuration = ''Release'', test = True, run = Some ''app'',
         skip_build = False\<rparr>)) = Exit 0"
proof -
  let ?a = "\<lparr>clean = True, configuration = ''Release'', test = True, run = Some ''app'',
             skip_build = False\<rparr>"
  let ?a' = "\<lparr>clean = False, configuration = ''Release'', test = True, run = None,
              skip_build = False\<rparr>"
  have 1: "fst (script (main (failing ''--version'' 127) ?a')) = Exit 1"
    using exit_status_of_build_and_tests [of "failing ''--version'' 127" 127 ?a']
    by (simp add: exit_code_def example_defs)
  have c: "\<forall>cmd. exit_code (failing sub k) cmd \<noteq> None" for sub k
    by (simp add: exit_code_def example_defs)
  have t: "tests_failed (snd (main (failing ''test'' 1) ?a))"
    "\<not> build_failed (snd (main (failing ''test'' 1) ?a))"
    "\<not> run_failed (snd (main (failing ''test'' 1) ?a))"
    by (simp_all add: build_defs example_defs reading_defs tests_failed_def run_failed_def
                      run_defs)
  have 2: "fst (script (main (failing ''test'' 1) ?a)) = Exit 1"
    using exit_status_of_build_and_tests [of "failing ''test'' 1" _ ?a] c t
    by (simp add: exit_code_def example_defs)
  have k: "\<not> tests_failed (snd (main (failing ''clean'' 1) ?a))"
    "\<not> build_failed (snd (main (failing ''clean'' 1) ?a))"
    "\<not> run_failed (snd (main (failing ''clean'' 1) ?a))"
    by (simp_all add: build_defs example_defs reading_defs tests_failed_def run_failed_def
                      run_defs)
  have 3: "fst (script (main (failing ''clean'' 1) ?a)) = Exit 0"
    using exit_status_of_build_and_tests [of "failing ''clean'' 1" _ ?a] c k
    by (simp add: exit_code_def example_defs)
  from 1 t(1) 2 3 show ?thesis by simp
qed

subsection \<open>Phases that are switched off\<close>

lemma run_command_agree:
  "subprocess_run env' cmd = subprocess_run env cmd \<Longrightarrow> run_command env' cmd = run_command env cmd"
  by (simp add: run_command_def)

lemma remove_paths_agree:
  assumes "is_dir env' = is_dir env"
  shows "remove_paths env' ps = remove_paths env ps"
  by (induction ps) (simp_all add: assms)

lemma remove_dirs_agree:
  assumes "is_dir env' = is_dir env" and "glob env' = glob env"
  shows "remove_dirs env' ps = remove_dirs env ps"
  by (induction ps) (simp_all add: assms(2) remove_paths_agree [OF assms(1)])

lemma clean_solutions_agree:
  assumes "\<And>cmd. subcommand cmd = ''clean'' \<Longrightarrow> subprocess_run env' cmd = subprocess_run env cmd"
    and "path_exists env' = path_exists env"
  shows "clean_solutions env' sols = clean_solutions env sols"
proof (induction sols)
  case Nil
  show ?case by simp
next
  case (Cons s sols)
  have "run_command env' [''dotnet'', ''clean'', s] = run_command env [''dotnet'', ''clean'', s]"
    by (rule run_command_agree, rule assms(1)) (simp add: subcommand_def)
  with Cons assms(2) show ?case by (simp cong: if_cong)
qed

lemma build_solutions_agree:
  assumes "\<And>cmd. subcommand cmd = ''build'' \<Longrightarrow> subprocess_run env' cmd = subprocess_run env cmd"
    and "path_exists env' = path_exists env"
  shows "build_solutions env' c sols b = build_solutions env c sols b"
proof (induction sols arbitrary: b)
  case Nil
  show ?case by simp
next
  case (Cons s sols)
  have "run_command env' [''dotnet'', ''build'', s, ''--configuration'', c, ''--no-restore'']
        = run_command env [''dotnet'', ''build'', s, ''--configuration'', c, ''--no-restore'']"
    by (rule run_command_agree, rule assms(1)) (simp add: subcommand_def)
  with Cons assms(2) show ?case by (simp cong: if_cong)
qed

lemma test_each_agree:
  assumes "\<And>cmd. subcommand cmd = ''test'' \<Longrightarrow> subprocess_run env' cmd = subprocess_run env cmd"
    and "path_exists env' = path_exists env"
  shows "test_each env' ps b = test_each env ps b"
proof (induction ps arbitrary: b)
  case Nil
  show ?case by simp
next
  case (Cons p ps)
  have "run_command env' [''dotnet'', ''test'', p, ''--no-build'', ''--verbosity'', ''normal'']
        = run_command env [''dotnet'', ''test'', p, ''--no-build'', ''--verbosity'', ''normal'']"
    by (rule run_command_agree, rule assms(1)) (simp add: subcommand_def)
  with Cons assms(2) show ?case by (simp cong: if_cong)
qed

lemma run_application_agree:
  assumes "\<And>cmd. subcommand cmd = ''run'' \<Longrightarrow> subprocess_run env' cmd = subprocess_run env cmd"
    and "path_exists env' = path_exists env"
  shows "run_application env' pn = run_application env pn"
proof -
  have rc: "run_command env' [''dotnet'', ''run'', ''--project'', p, ''--no-build'']
        = run_command env [''dotnet'', ''run'', ''--project'', p, ''--no-build'']" for p
    by (rule run_command_agree, rule assms(1)) (simp add: subcommand_def)
  show ?thesis
    unfolding run_application_def choose_project_def default_project_def rc assms(2)
    by (rule refl)
qed

lemma main_agree:
  assumes agree: "\<forall>cmd. \<not> skipped_command a cmd \<longrightarrow> subprocess_run env' cmd = subprocess_run env cmd"
    and fs: "path_exists env' = path_exists env" "glob env' = glob env" "is_dir env' = is_dir env"
    and cd: "os_chdir env' = os_chdir env"
  shows "main env' a = main env a"
proof -
  have other: "subprocess_run env' cmd = subprocess_run env cmd"
    if "subcommand cmd \<noteq> ''build''" "subcommand cmd \<noteq> ''test''" "subcommand cmd \<noteq> ''run''" for cmd
    using agree that by (simp add: skipped_command_def)
  have "run_command env' [''dotnet'', ''--version''] = run_command env [''dotnet'', ''--version'']"
    by (rule run_command_agree, rule other) (simp_all add: subcommand_def)
  then have s: "sdk_check env' = sdk_check env" by (simp add: sdk_check_def)
  have "clean_solutions env' solutions = clean_solutions env solutions"
    by (rule clean_solutions_agree, rule other) (simp_all add: fs)
  then have c: "clean_project env' = clean_project env"
    by (simp add: clean_project_def remove_dirs_agree [OF fs(3) fs(2)])
  have b: "build_stage env' a = build_stage env a"
  proof (cases "skip_build a")
    case True
    then show ?thesis by (simp add: build_stage_def)
  next
    case False
    then have ag: "subprocess_run env' cmd = subprocess_run env cmd" if "subcommand cmd = ''build''" for cmd
      using agree that by (simp add: skipped_command_def)
    have "build_solutions env' (configuration a) solutions True
               = build_solutions env (configuration a) solutions True"
      by (rule build_solutions_agree) (simp_all add: ag fs)
    then show ?thesis by (simp add: build_stage_def build_project_def)
  qed
  have t: "test_stage env' a ok = test_stage env a ok" for ok
  proof (cases "test a")
    case False
    then show ?thesis by (simp add: test_stage_def)
  next
    case True
    then have ag: "subprocess_run env' cmd = subprocess_run env cmd" if "subcommand cmd = ''test''" for cmd
      using agree that by (simp add: skipped_command_def)
    have "test_each env' test_projects True = test_each env test_projects True"
      by (rule test_each_agree) (simp_all add: ag fs)
    then show ?thesis by (simp add: test_stage_def run_tests_def)
  qed
  have r: "run_stage env' a ok = run_stage env a ok" for ok
  proof (cases "run a = None")
    case True
    then show ?thesis by (simp add: run_stage_def)
  next
    case False
    then have ag: "subprocess_run env' cmd = subprocess_run env cmd" if "subcommand cmd = ''run''" for cmd
      using agree that by (simp add: skipped_command_def)
    have "run_application env' pn = run_application env pn" for pn
      by (rule run_application_agree) (simp_all add: ag fs)
    then show ?thesis by (simp add: run_stage_def)
  qed
  from s c b t r cd show ?thesis
    by (simp add: main_def main_body_def)
qed

lemma hidden_from_summary_line:
  assumes "x = ''Build: '' @ mark ok \<or> x = ''Tests: '' @ mark ok \<or> x = ''Run: '' @ mark ok"
  shows "\<not> printed x (snd (sdk_check env))"
    "\<not> printed x (snd (guarded (clean a) (clean_project env)))"
    "\<not> printed x (snd (clean_project env))"
    "\<not> printed x (snd (build_stage env a))"
    "\<not> printed x (snd (test_stage env a b))"
    "\<not> printed x (snd (run_stage env a b))"
    "\<not> printed x (handler_output res)"
proof -
  let ?all = "[''Running: '', ''ERROR: '', ''Cleaning '', ''Removing '', ''Clean complete!'',
    ''Building '', ''Build failed for '', ''Build successful for '', ''Solution '',
    ''Build failed!'', ''Running tests...'', ''Running tests for '', ''Tests failed for '',
    ''Tests passed for '', ''Test project '', ''Tests failed!'', ''Running application...'',
    ''No runnable projects found!'', ''Running demo: '', ''Running app: '', ''Project '',
    ''Failed to run application!'', CHR 0x0A # ''Build interrupted'', ''Build failed: '']"
  have k: "\<forall>p\<in>set ?all. \<not> starts p x"
  proof (cases ok)
    case True
    with assms show ?thesis by (elim disjE) (simp_all add: mark_def)
  next
    case False
    with assms show ?thesis by (elim disjE) (simp_all add: mark_def)
  qed
  have hide: "\<not> printed x out" if "lines_from ps out" "set ps \<subseteq> set ?all" for ps out
    by (rule not_printed [OF lines_from_mono [OF that] k])
  show "\<not> printed x (snd (sdk_check env))"
    by (rule hide [OF sdk_check_lines]) simp
  show "\<not> printed x (snd (guarded (clean a) (clean_project env)))"
    by (rule hide [OF clean_stage_lines]) simp
  show "\<not> printed x (snd (clean_project env))"
    by (rule hide [OF clean_project_lines]) simp
  show "\<not> printed x (snd (build_stage env a))"
    by (rule hide [OF build_stage_lines]) simp
  show "\<not> printed x (snd (test_stage env a b))"
    by (rule hide [OF test_stage_lines]) simp
  show "\<not> printed x (snd (run_stage env a b))"
    by (rule hide [OF run_stage_lines]) simp
  show "\<not> printed x (handler_output res)"
    by (rule hide [OF handler_output_lines]) simp
qed

lemma summary_line_printed:
  assumes x: "x = ''Build: '' @ mark ok \<or> x = ''Tests: '' @ mark ok \<or> x = ''Run: '' @ mark ok"
    and p: "printed x (snd (main env a))"
  shows "\<exists>b t r. printed x (snd (summary a b t r))"
proof (cases "os_chdir env")
  case (Some e)
  have "x \<noteq> ''=== CsharpUAI Build Script ===''"
    using x by (elim disjE) simp_all
  with p Some show ?thesis by (simp add: main_chdir_fails)
next
  case None
  note out = main_output [OF None]
  note hid = hidden_from_summary_line [OF x]
  have h: "x \<noteq> ''=== CsharpUAI Build Script ===''"
    using x by (elim disjE) simp_all
  show ?thesis
  proof (cases rule: main_body_cases [of env a])
    case (sdk e)
    from p show ?thesis by (simp add: out [OF sdk(2)] hid h)
  next
    case (clean e)
    from p show ?thesis by (simp add: out [OF clean(4)] hid h)
  next
    case (build e)
    from p show ?thesis by (simp add: out [OF build(4)] hid h)
  next
    case (test b e)
    from p show ?thesis by (simp add: out [OF test(5)] hid h)
  next
    case (run b t e)
    from p show ?thesis by (simp add: out [OF run(6)] hid h)
  next
    case (summary b t r)
    from p have "printed x (snd (summary a b t r))"
      by (simp add: out [OF summary(6)] hid h)
    then show ?thesis by blast
  qed
qed

lemma printed_summary_of: "printed x (summary_of out) \<Longrightarrow> printed x out"
proof -
  assume "printed x (summary_of out)"
  then have "Print x \<in> set (drop 1 (dropWhile (\<lambda>ev. ev \<noteq> Print summary_header) out))"
    by (simp add: printed_def summary_of_def)
  then have "Print x \<in> set (dropWhile (\<lambda>ev. ev \<noteq> Print summary_header) out)"
    by (rule in_set_dropD)
  then show "printed x out"
    by (simp add: printed_def set_dropWhileD)
qed

text \<open>
  C8. Whatever the commands of a phase that is switched off would do, the
  script behaves the same: it ends with the same status and prints the same
  output. Under \<open>--skip-build\<close> the summary has no \<open>Build\<close> line, without
  \<open>--test\<close> it has no \<open>Tests\<close> line, and without \<open>--run\<close> it has no \<open>Run\<close> line.
\<close>

theorem skipped_phase_has_no_effect:
  assumes "\<forall>cmd. \<not> skipped_command a cmd \<longrightarrow> subprocess_run env' cmd = subprocess_run env cmd"
    and "path_exists env' = path_exists env" and "glob env' = glob env"
    and "is_dir env' = is_dir env" and "os_chdir env' = os_chdir env"
  shows "script (main env' a) = script (main env a)
       \<and> (skip_build a \<longrightarrow> \<not> printed (''Build: '' @ mark ok) (summary_of (snd (main env a))))
       \<and> (\<not> test a \<longrightarrow> \<not> printed (''Tests: '' @ mark ok) (summary_of (snd (main env a))))
       \<and> (run a = None \<longrightarrow> \<not> printed (''Run: '' @ mark ok) (summary_of (snd (main env a))))"
proof (intro conjI impI)
  show "script (main env' a) = script (main env a)"
    using main_agree [OF assms] by simp
next
  assume s: "skip_build a"
  show "\<not> printed (''Build: '' @ mark ok) (summary_of (snd (main env a)))"
  proof
    assume "printed (''Build: '' @ mark ok) (summary_of (snd (main env a)))"
    then have "printed (''Build: '' @ mark ok) (snd (main env a))" by (rule printed_summary_of)
    then have "\<exists>b t r. printed (''Build: '' @ mark ok) (snd (summary a b t r))"
      by (rule summary_line_printed [where ok = ok, rotated]) simp
    then obtain b t r where "printed (''Build: '' @ mark ok) (snd (summary a b t r))"
      by (elim exE)
    with s show False
      by (simp add: summary_output summary_header_def split: if_splits)
  qed
next
  assume s: "\<not> test a"
  show "\<not> printed (''Tests: '' @ mark ok) (summary_of (snd (main env a)))"
  proof
    assume "printed (''Tests: '' @ mark ok) (summary_of (snd (main env a)))"
    then have "printed (''Tests: '' @ mark ok) (snd (main env a))" by (rule printed_summary_of)
    then have "\<exists>b t r. printed (''Tests: '' @ mark ok) (snd (summary a b t r))"
      by (rule summary_line_printed [where ok = ok, rotated]) simp
    then obtain b t r where "printed (''Tests: '' @ mark ok) (snd (summary a b t r))"
      by (elim exE)
    with s show False
      by (simp add: summary_output summary_header_def split: if_splits)
  qed
next
  assume s: "run a = None"
  show "\<not> printed (''Run: '' @ mark ok) (summary_of (snd (main env a)))"
  proof
    assume "printed (''Run: '' @ mark ok) (summary_of (snd (main env a)))"
    then have "printed (''Run: '' @ mark ok) (snd (main env a))" by (rule printed_summary_of)
    then have "\<exists>b t r. printed (''Run: '' @ mark ok) (snd (summary a b t r))"
      by (rule summary_line_printed [where ok = ok, rotated]) simp
    then obtain b t r where "printed (''Run: '' @ mark ok) (snd (summary a b t r))"
      by (elim exE)
    with s show False
      by (simp add: summary_output summary_header_def split: if_splits)
  qed
qed

theorem skipped_phase_has_no_effect_witness:
  "script (main (failing ''build'' 1)
        \<lparr>clean = True, configuration = ''Release'', test = False, run = None, skip_build = True\<rparr>)
     = script (main all_fine
        \<lparr>clean = True, configuration = ''Release'', test = False, run = None, skip_build = True\<rparr>)
   \<and> \<not> printed (''Build: '' @ mark True) (summary_of (snd (main all_fine
        \<lparr>clean = True, configuration = ''Release'', test = False, run = None, skip_build = True\<rparr>)))
   \<and> \<not> printed (''Tests: '' @ mark True) (summary_of (snd (main all_fine
        \<lparr>clean = True, configuration = ''Release'', test = False, run = None, skip_build = True\<rparr>)))
   \<and> \<not> printed (''Run: '' @ mark True) (summary_of (snd (main all_fine
        \<lparr>clean = True, configuration = ''Release'', test = False, run = None, skip_build = True\<rparr>)))"
proof -
  let ?a = "\<lparr>clean = True, configuration = ''Release'', test = False, run = None,
             skip_build = True\<rparr>"
  have 1: "\<forall>cmd. \<not> skipped_command ?a cmd \<longrightarrow>
             subprocess_run (failing ''build'' 1) cmd = subprocess_run all_fine cmd"
    by (simp add: skipped_command_def failing_def all_fine_def)
  have 2: "path_exists (failing ''build'' 1) = path_exists all_fine"
    and 3: "glob (failing ''build'' 1) = glob all_fine"
    and 4: "is_dir (failing ''build'' 1) = is_dir all_fine"
    and 5: "os_chdir (failing ''build'' 1) = os_chdir all_fine"
    by (simp_all add: failing_def)
  from skipped_phase_has_no_effect [OF 1 2 3 4 5, of True] show ?thesis by simp
qed

end
